theory Spec2Isabelle
  imports Main "HOL-Library.Word" "HOL-Library.Multiset"
begin

section \<open>Values shared by the user interface and the storage schema\<close>

subsection \<open>JavaScript strings\<close>

text \<open>
  A JavaScript string is a sequence of UTF-16 code units. Literals of the source are
  written \<open>js ''...''\<close>.
\<close>

type_synonym code_unit = "16 word"
type_synonym js_string = "code_unit list"

definition js :: "string \<Rightarrow> js_string" where
  "js s = map of_char s"

text \<open>
  \<open>String.prototype.trim\<close> removes the ECMAScript WhiteSpace and LineTerminator
  code points from both ends. All of them are in the basic plane, one code unit each.
\<close>

definition is_white_space :: "code_unit \<Rightarrow> bool" where
  "is_white_space c \<longleftrightarrow>
     c = 0x0009 \<or> c = 0x000A \<or> c = 0x000B \<or> c = 0x000C \<or> c = 0x000D \<or> c = 0x0020 \<or>
     c = 0x00A0 \<or> c = 0x1680 \<or> (0x2000 \<le> c \<and> c \<le> 0x200A) \<or> c = 0x2028 \<or>
     c = 0x2029 \<or> c = 0x202F \<or> c = 0x205F \<or> c = 0x3000 \<or> c = 0xFEFF"

definition trim :: "js_string \<Rightarrow> js_string" where
  "trim s = rev (dropWhile is_white_space (rev (dropWhile is_white_space s)))"

text \<open>\<open>Array.prototype.join\<close> on an array of strings.\<close>

fun join :: "js_string \<Rightarrow> js_string list \<Rightarrow> js_string" where
  "join sep [] = []"
| "join sep [x] = x"
| "join sep (x # y # ys) = x @ sep @ join sep (y # ys)"

subsection \<open>Errors\<close>

text \<open>
  Every failure the handlers see is a value with a \<open>message\<close>: an error object returned by
  the storage client, a rejected promise of the browser or of the PDF library, or
  \<open>new Error(...)\<close>.
\<close>

datatype error = Error js_string

fun message :: "error \<Rightarrow> js_string" where
  "message (Error m) = m"

section \<open>PDF text extraction (DocumentSidebar)\<close>

text \<open>
  The PDF library is external. Its answers are inputs of the model: a document has
  \<open>numPages\<close> and \<open>getPage\<close>, a page has \<open>getTextContent\<close>, a text content has
  \<open>items\<close>, each with its \<open>str\<close>. Every promise may reject.
\<close>

record text_item =
  str :: js_string

record text_content =
  items :: "text_item list"

record pdf_page =
  getTextContent :: "error + text_content"

record pdf_document =
  numPages :: nat
  getPage :: "nat \<Rightarrow> error + pdf_page"

text \<open>The browser's \<open>File\<close>: \<open>arrayBuffer()\<close> and \<open>text()\<close> are promises that may reject.\<close>

record js_file =
  f_name :: js_string
  f_type :: js_string
  f_size :: int
  f_arrayBuffer :: "error + 8 word list"
  f_text :: "error + js_string"

text \<open>
  The loop \<open>for (let i = 1; i <= pdf.numPages; i++)\<close> with its accumulator \<open>fullText\<close>.
  A rejected \<open>await\<close> leaves the function at once. The assignment of the worker source
  configures the library and has no part in the result.
\<close>

function extract_pages :: "pdf_document \<Rightarrow> nat \<Rightarrow> js_string \<Rightarrow> error + js_string" where
  "extract_pages pdf i fullText =
     (if i \<le> numPages pdf then
        (case getPage pdf i of
           Inl e \<Rightarrow> Inl e
         | Inr page \<Rightarrow>
             (case getTextContent page of
                Inl e \<Rightarrow> Inl e
              | Inr textContent \<Rightarrow>
                  (let pageText = join (js '' '') (map str (items textContent))
                   in extract_pages pdf (i + 1) (fullText @ pageText @ [0x000A, 0x000A]))))
      else Inr fullText)"
  by pat_completeness auto
termination
  by (relation "measure (\<lambda>(pdf, i, fullText). Suc (numPages pdf) - i)") auto

declare extract_pages.simps [simp del]

definition extractTextFromPDF ::
  "(8 word list \<Rightarrow> error + pdf_document) \<Rightarrow> js_file \<Rightarrow> error + js_string" where
  "extractTextFromPDF getDocument f =
     (case f_arrayBuffer f of
        Inl e \<Rightarrow> Inl e
      | Inr arrayBuffer \<Rightarrow>
          (case getDocument arrayBuffer of
             Inl e \<Rightarrow> Inl e
           | Inr pdf \<Rightarrow>
               (case extract_pages pdf 1 [] of
                  Inl e \<Rightarrow> Inl e
                | Inr fullText \<Rightarrow> Inr (trim fullText))))"

section \<open>The storage schema\<close>

text \<open>
  The three tables of the migration. A \<open>uuid\<close> is a 128-bit value; a \<open>timestamptz\<close> counts
  microseconds. The role of a message is one of the two values its CHECK constraint admits.
  The table \<open>auth.users\<close> belongs to the hosted authentication service and is not part of
  the model.
\<close>

type_synonym uuid = "128 word"
type_synonym timestamptz = nat

datatype role = User | Assistant

record document =
  d_id :: uuid
  d_user_id :: uuid
  d_title :: js_string
  d_content :: js_string
  d_file_type :: js_string
  d_file_size :: int
  d_created_at :: timestamptz
  d_updated_at :: timestamptz

record chat_session =
  s_id :: uuid
  s_user_id :: uuid
  s_document_id :: uuid
  s_created_at :: timestamptz
  s_updated_at :: timestamptz

record chat_message =
  m_id :: uuid
  m_session_id :: uuid
  m_role :: role
  m_content :: js_string
  m_created_at :: timestamptz

record database =
  documents :: "document list"
  chat_sessions :: "chat_session list"
  chat_messages :: "chat_message list"

text \<open>
  What the service contributes to one request: whether the request fails before it
  reaches the tables (network, service), and the values of the column defaults
  \<open>gen_random_uuid()\<close> and \<open>now()\<close>.
\<close>

record server =
  fault :: "error option"
  gen_random_uuid :: uuid
  now :: timestamptz

text \<open>
  The client's answer is \<open>{ data, error }\<close>, here \<open>error + 'a\<close>; \<open>data\<close> is null when
  there is an error.
\<close>

fun data :: "error + 'a \<Rightarrow> 'a option" where
  "data (Inl e) = None"
| "data (Inr d) = Some d"

text \<open>
  A \<open>text\<close> column cannot hold the code point U+0000: a request whose JSON body carries
  it in a text value is refused (error 22P05) before any row is written.
\<close>

definition pg_text :: "js_string \<Rightarrow> bool" where
  "pg_text t \<longleftrightarrow> 0x0000 \<notin> set t"

text \<open>
  Inserts. The text values of the body are read first; then the row-level policy
  \<open>WITH CHECK\<close> is evaluated, then the primary key, then the foreign key. The argument
  \<open>uid\<close> is \<open>auth.uid()\<close>, null for a request without a signed-in user.
\<close>

definition insert_document ::
  "server \<Rightarrow> uuid option \<Rightarrow> uuid \<Rightarrow> js_string \<Rightarrow> js_string \<Rightarrow> js_string \<Rightarrow> int \<Rightarrow>
   database \<Rightarrow> error + database" where
  "insert_document srv uid user_id title' content file_type file_size dbase =
     (case fault srv of
        Some e \<Rightarrow> Inl e
      | None \<Rightarrow>
          if \<not> (pg_text title' \<and> pg_text content \<and> pg_text file_type) then
            Inl (Error (js ''unsupported Unicode escape sequence''))
          else if uid \<noteq> Some user_id then
            Inl (Error (js ''new row violates row-level security policy for table documents''))
          else if gen_random_uuid srv \<in> set (map d_id (documents dbase)) then
            Inl (Error (js ''duplicate key value violates unique constraint documents_pkey''))
          else
            Inr (dbase\<lparr>documents := documents dbase @
                   [\<lparr>d_id = gen_random_uuid srv, d_user_id = user_id, d_title = title',
                     d_content = content, d_file_type = file_type, d_file_size = file_size,
                     d_created_at = now srv, d_updated_at = now srv\<rparr>]\<rparr>))"

definition insert_chat_session ::
  "server \<Rightarrow> uuid option \<Rightarrow> uuid \<Rightarrow> uuid \<Rightarrow> database \<Rightarrow> error + chat_session \<times> database" where
  "insert_chat_session srv uid user_id document_id dbase =
     (case fault srv of
        Some e \<Rightarrow> Inl e
      | None \<Rightarrow>
          if uid \<noteq> Some user_id then
            Inl (Error (js ''new row violates row-level security policy for table chat_sessions''))
          else if gen_random_uuid srv \<in> set (map s_id (chat_sessions dbase)) then
            Inl (Error (js ''duplicate key value violates unique constraint chat_sessions_pkey''))
          else if document_id \<notin> set (map d_id (documents dbase)) then
            Inl (Error (js ''insert on table chat_sessions violates foreign key constraint''))
          else
            (let row = \<lparr>s_id = gen_random_uuid srv, s_user_id = user_id,
                        s_document_id = document_id, s_created_at = now srv,
                        s_updated_at = now srv\<rparr>
             in Inr (row, dbase\<lparr>chat_sessions := chat_sessions dbase @ [row]\<rparr>)))"

definition owns_session :: "uuid option \<Rightarrow> uuid \<Rightarrow> database \<Rightarrow> bool" where
  "owns_session uid session_id dbase \<longleftrightarrow>
     list_ex (\<lambda>s. s_id s = session_id \<and> uid = Some (s_user_id s)) (chat_sessions dbase)"

definition insert_chat_message ::
  "server \<Rightarrow> uuid option \<Rightarrow> uuid \<Rightarrow> role \<Rightarrow> js_string \<Rightarrow> database \<Rightarrow>
   error + chat_message \<times> database" where
  "insert_chat_message srv uid session_id role' content dbase =
     (case fault srv of
        Some e \<Rightarrow> Inl e
      | None \<Rightarrow>
          if \<not> pg_text content then
            Inl (Error (js ''unsupported Unicode escape sequence''))
          else if \<not> owns_session uid session_id dbase then
            Inl (Error (js ''new row violates row-level security policy for table chat_messages''))
          else if gen_random_uuid srv \<in> set (map m_id (chat_messages dbase)) then
            Inl (Error (js ''duplicate key value violates unique constraint chat_messages_pkey''))
          else if session_id \<notin> set (map s_id (chat_sessions dbase)) then
            Inl (Error (js ''insert on table chat_messages violates foreign key constraint''))
          else
            (let row = \<lparr>m_id = gen_random_uuid srv, m_session_id = session_id, m_role = role',
                        m_content = content, m_created_at = now srv\<rparr>
             in Inr (row, dbase\<lparr>chat_messages := chat_messages dbase @ [row]\<rparr>)))"

text \<open>
  Queries see the rows their SELECT policy admits. \<open>ORDER BY created_at\<close> ascending is a
  sort on the column; descending is its reverse (SQL leaves the order of equal keys open).
\<close>

definition select_sessions ::
  "server \<Rightarrow> uuid option \<Rightarrow> uuid \<Rightarrow> uuid \<Rightarrow> database \<Rightarrow> error + uuid list" where
  "select_sessions srv uid document_id user_id dbase =
     (case fault srv of
        Some e \<Rightarrow> Inl e
      | None \<Rightarrow>
          Inr (take 1 (map s_id (rev (sort_key s_created_at
                 (filter (\<lambda>s. uid = Some (s_user_id s) \<and> s_document_id s = document_id \<and>
                               s_user_id s = user_id)
                    (chat_sessions dbase)))))))"

definition select_messages ::
  "server \<Rightarrow> uuid option \<Rightarrow> uuid \<Rightarrow> database \<Rightarrow> error + chat_message list" where
  "select_messages srv uid sessId dbase =
     (case fault srv of
        Some e \<Rightarrow> Inl e
      | None \<Rightarrow>
          Inr (sort_key m_created_at
                 (filter (\<lambda>m. owns_session uid (m_session_id m) dbase \<and> m_session_id m = sessId)
                    (chat_messages dbase))))"

definition select_documents :: "server \<Rightarrow> uuid option \<Rightarrow> database \<Rightarrow> error + document list" where
  "select_documents srv uid dbase =
     (case fault srv of
        Some e \<Rightarrow> Inl e
      | None \<Rightarrow>
          Inr (rev (sort_key d_created_at
                 (filter (\<lambda>d. uid = Some (d_user_id d)) (documents dbase)))))"

text \<open>
  \<open>DELETE FROM documents WHERE id = ...\<close> removes the rows its DELETE policy admits, and
  \<open>ON DELETE CASCADE\<close> removes the sessions that reference a removed document and the
  messages that reference a removed session, whatever the policies of those two tables.
  A delete that matches no row is no error.
\<close>

definition delete_document :: "server \<Rightarrow> uuid option \<Rightarrow> uuid \<Rightarrow> database \<Rightarrow> error + database" where
  "delete_document srv uid id' dbase =
     (case fault srv of
        Some e \<Rightarrow> Inl e
      | None \<Rightarrow>
          (let deleted = (\<lambda>d. d_id d = id' \<and> uid = Some (d_user_id d));
               doc_ids = map d_id (filter deleted (documents dbase));
               cascaded = (\<lambda>s. s_document_id s \<in> set doc_ids);
               session_ids = map s_id (filter cascaded (chat_sessions dbase))
           in Inr \<lparr>documents = filter (\<lambda>d. \<not> deleted d) (documents dbase),
                   chat_sessions = filter (\<lambda>s. \<not> cascaded s) (chat_sessions dbase),
                   chat_messages =
                     filter (\<lambda>m. m_session_id m \<notin> set session_ids) (chat_messages dbase)\<rparr>))"

section \<open>The application\<close>

text \<open>
  One record holds the hosted services (tables, signed-in user, the calls received by the
  \<open>chat-with-document\<close> function), the notifications shown, and the state of the three
  components. The props of ChatInterface are the Dashboard's state: \<open>documentId\<close> is
  \<open>selectedDocId\<close> and \<open>documentContent\<close> is \<open>selectedDocContent\<close>.
\<close>

record toast =
  title :: js_string
  description :: "js_string option"
  destructive :: bool

record invoke_body =
  b_message :: js_string
  b_documentContent :: js_string
  b_sessionId :: uuid

record app =
  db :: database
  auth_user :: "uuid option"
  invocations :: "invoke_body list"
  toasts :: "toast list"
  dash_documents :: "document list"
  selectedDocId :: "uuid option"
  selectedDocContent :: js_string
  messages :: "chat_message list"
  input :: js_string
  loading :: bool
  sessionId :: "uuid option"
  uploading :: bool

abbreviation documentId :: "app \<Rightarrow> uuid option" where
  "documentId s \<equiv> selectedDocId s"

abbreviation documentContent :: "app \<Rightarrow> js_string" where
  "documentContent s \<equiv> selectedDocContent s"

definition show_toast :: "toast \<Rightarrow> app \<Rightarrow> app" where
  "show_toast t s = s\<lparr>toasts := toasts s @ [t]\<rparr>"

definition error_toast :: "string \<Rightarrow> error \<Rightarrow> toast" where
  "error_toast t e = \<lparr>title = js t, description = Some (message e), destructive = True\<rparr>"

definition plain_toast :: "string \<Rightarrow> toast" where
  "plain_toast t = \<lparr>title = js t, description = None, destructive = False\<rparr>"

text \<open>\<open>supabase.auth.getUser()\<close>: the user is null without a session and when the call fails.\<close>

definition getUser :: "error option \<Rightarrow> app \<Rightarrow> uuid option" where
  "getUser flt s = (case flt of Some e \<Rightarrow> None | None \<Rightarrow> auth_user s)"

subsection \<open>Dashboard\<close>

text \<open>The effect on \<open>[selectedDocId, documents]\<close>.\<close>

definition selected_effect :: "app \<Rightarrow> app" where
  "selected_effect s =
     (case selectedDocId s of
        None \<Rightarrow> s
      | Some i \<Rightarrow>
          (case find (\<lambda>d. d_id d = i) (dash_documents s) of
             None \<Rightarrow> s
           | Some doc \<Rightarrow> s\<lparr>selectedDocContent := d_content doc\<rparr>))"

definition loadDocuments :: "server \<Rightarrow> app \<Rightarrow> app" where
  "loadDocuments srv s =
     (case select_documents srv (auth_user s) (db s) of
        Inl e \<Rightarrow> show_toast (error_toast ''Error loading documents'' e) s
      | Inr rows \<Rightarrow> selected_effect (s\<lparr>dash_documents := rows\<rparr>))"

text \<open>\<open>signOut\<close> belongs to the authentication service; \<open>cleared\<close> says whether it ended the session.\<close>

definition handleSignOut :: "bool \<Rightarrow> app \<Rightarrow> app" where
  "handleSignOut cleared s =
     show_toast (plain_toast ''Signed out successfully'')
       (if cleared then s\<lparr>auth_user := None\<rparr> else s)"

subsection \<open>ChatInterface\<close>

definition loadMessages :: "server \<Rightarrow> uuid \<Rightarrow> app \<Rightarrow> app" where
  "loadMessages srv sessId s =
     (case select_messages srv (auth_user s) sessId (db s) of
        Inl e \<Rightarrow> show_toast (error_toast ''Error loading messages'' e) s
      | Inr rows \<Rightarrow> s\<lparr>messages := rows\<rparr>)"

record session_env =
  user_fault :: "error option"
  sessions_select :: server
  session_insert :: server
  messages_select :: server

text \<open>
  The answer of the session query is destructured as \<open>{ data: sessions }\<close>: its error is
  not read, and a null or empty \<open>sessions\<close> leads to the insert.
\<close>

definition loadOrCreateSession :: "session_env \<Rightarrow> app \<Rightarrow> app" where
  "loadOrCreateSession env s =
     (case documentId s of
        None \<Rightarrow> s
      | Some doc \<Rightarrow>
          (case getUser (user_fault env) s of
             None \<Rightarrow> s
           | Some user \<Rightarrow>
               (case data (select_sessions (sessions_select env) (auth_user s) doc user (db s)) of
                  Some (sess # rest) \<Rightarrow>
                    loadMessages (messages_select env) sess (s\<lparr>sessionId := Some sess\<rparr>)
                | _ \<Rightarrow>
                    (case insert_chat_session (session_insert env) (auth_user s) user doc (db s) of
                       Inl e \<Rightarrow> show_toast (error_toast ''Session error'' e) s
                     | Inr (newSession, db') \<Rightarrow>
                         s\<lparr>db := db', sessionId := Some (s_id newSession), messages := []\<rparr>))))"

text \<open>
  Modelled from the spec: the \<open>chat-with-document\<close> function, whose source is not among
  the files. It "accepts a message string, full document text, and session identifier;
  returns a single answer string": its answer is an input, an error or the data with its
  \<open>message\<close>, and it writes to no table.
\<close>

record send_env =
  user_insert :: server
  invoke_answer :: "error + js_string"
  assistant_insert :: server

definition handleSend :: "send_env \<Rightarrow> app \<Rightarrow> app" where
  "handleSend env s =
     (if trim (input s) = [] \<or> sessionId s = None \<or> documentContent s = [] then s
      else
        (case sessionId s of
           None \<Rightarrow> s
         | Some sid \<Rightarrow>
             (let userMessage = trim (input s);
                  s1 = s\<lparr>input := [], loading := True\<rparr>;
                  s2 =
                    (case insert_chat_message (user_insert env) (auth_user s1) sid User
                            userMessage (db s1) of
                       Inl userError \<Rightarrow> show_toast (error_toast ''Error'' userError) s1
                     | Inr (savedUserMsg, db1) \<Rightarrow>
                         (let s3 = s1\<lparr>db := db1, messages := messages s1 @ [savedUserMsg],
                                      invocations := invocations s1 @
                                        [\<lparr>b_message = userMessage,
                                          b_documentContent = documentContent s,
                                          b_sessionId = sid\<rparr>]\<rparr>
                          in (case invoke_answer env of
                                Inl err \<Rightarrow> show_toast (error_toast ''Error'' err) s3
                              | Inr assistantMsg \<Rightarrow>
                                  (case insert_chat_message (assistant_insert env) (auth_user s3)
                                          sid Assistant assistantMsg (db s3) of
                                     Inl assistantError \<Rightarrow>
                                       show_toast (error_toast ''Error'' assistantError) s3
                                   | Inr (savedAssistantMsg, db2) \<Rightarrow>
                                       s3\<lparr>db := db2,
                                          messages := messages s3 @ [savedAssistantMsg]\<rparr>))))
              in s2\<lparr>loading := False\<rparr>)))"

text \<open>Selecting a document sets \<open>selectedDocId\<close>; the effects run when the value changed.\<close>

definition selectDoc :: "session_env \<Rightarrow> uuid \<Rightarrow> app \<Rightarrow> app" where
  "selectDoc env i s =
     (if selectedDocId s = Some i then s
      else selected_effect (loadOrCreateSession env (s\<lparr>selectedDocId := Some i\<rparr>)))"

subsection \<open>DocumentSidebar\<close>

text \<open>
  The handler of the file input. The chosen file is \<open>e.target.files?.[0]\<close>; resetting the
  input element's value at the end touches the page only.
\<close>

record upload_env =
  upload_user_fault :: "error option"
  document_insert :: server
  upload_reload :: server

definition handleFileUpload ::
  "(8 word list \<Rightarrow> error + pdf_document) \<Rightarrow> upload_env \<Rightarrow> js_file option \<Rightarrow> app \<Rightarrow> app" where
  "handleFileUpload getDocument env chosen s =
     (case chosen of
        None \<Rightarrow> s
      | Some f \<Rightarrow>
          (let s1 = s\<lparr>uploading := True\<rparr>;
               s2 =
                 (case (if f_type f = js ''application/pdf''
                        then extractTextFromPDF getDocument f else f_text f) of
                    Inl e \<Rightarrow> show_toast (error_toast ''Upload failed'' e) s1
                  | Inr text \<Rightarrow>
                      (case getUser (upload_user_fault env) s1 of
                         None \<Rightarrow>
                           show_toast (error_toast ''Upload failed''
                             (Error (js ''Not authenticated''))) s1
                       | Some user \<Rightarrow>
                           (case insert_document (document_insert env) (auth_user s1) user
                                   (f_name f) text (f_type f) (f_size f) (db s1) of
                              Inl e \<Rightarrow> show_toast (error_toast ''Upload failed'' e) s1
                            | Inr db' \<Rightarrow>
                                loadDocuments (upload_reload env)
                                  (show_toast (plain_toast ''Document uploaded successfully!'')
                                     (s1\<lparr>db := db'\<rparr>)))))
           in s2\<lparr>uploading := False\<rparr>))"

record delete_env =
  document_delete :: server
  delete_reload :: server

definition handleDelete :: "delete_env \<Rightarrow> uuid \<Rightarrow> app \<Rightarrow> app" where
  "handleDelete env i s =
     (case delete_document (document_delete env) (auth_user s) i (db s) of
        Inl e \<Rightarrow> show_toast (error_toast ''Delete failed'' e) s
      | Inr db' \<Rightarrow>
          loadDocuments (delete_reload env)
            (show_toast (plain_toast ''Document deleted'') (s\<lparr>db := db'\<rparr>)))"

subsection \<open>Every operation a user can trigger\<close>

datatype action =
    LoadDocuments server
  | HandleSignOut bool
  | SelectDoc session_env uuid
  | SetInput js_string
  | HandleSend send_env
  | HandleFileUpload "8 word list \<Rightarrow> error + pdf_document" upload_env "js_file option"
  | HandleDelete delete_env uuid

fun perform :: "action \<Rightarrow> app \<Rightarrow> app" where
  "perform (LoadDocuments srv) s = loadDocuments srv s"
| "perform (HandleSignOut cleared) s = handleSignOut cleared s"
| "perform (SelectDoc env i) s = selectDoc env i s"
| "perform (SetInput v) s = s\<lparr>input := v\<rparr>"
| "perform (HandleSend env) s = handleSend env s"
| "perform (HandleFileUpload getDocument env chosen) s = handleFileUpload getDocument env chosen s"
| "perform (HandleDelete env i) s = handleDelete env i s"

section \<open>Example inputs\<close>

text \<open>A two-page PDF, the file that holds it, and the library's answer for its bytes.\<close>

definition ex_page :: "js_string list \<Rightarrow> pdf_page" where
  "ex_page strs = \<lparr>getTextContent = Inr \<lparr>items = map (\<lambda>t. \<lparr>str = t\<rparr>) strs\<rparr>\<rparr>"

definition ex_pdf :: pdf_document where
  "ex_pdf = \<lparr>numPages = 2,
     getPage = (\<lambda>i. if i = 1 then Inr (ex_page [js '' Hello'', js ''world''])
                     else if i = 2 then Inr (ex_page [js ''bye''])
                     else Inl (Error (js ''Invalid page request'')))\<rparr>"

definition ex_getDocument :: "8 word list \<Rightarrow> error + pdf_document" where
  "ex_getDocument bytes =
     (if bytes = [0x25, 0x50, 0x44, 0x46] then Inr ex_pdf
      else Inl (Error (js ''Invalid PDF structure'')))"

definition ex_pdf_file :: js_file where
  "ex_pdf_file = \<lparr>f_name = js ''a.pdf'', f_type = js ''application/pdf'', f_size = 4,
     f_arrayBuffer = Inr [0x25, 0x50, 0x44, 0x46], f_text = Inr (js ''%PDF'')\<rparr>"

text \<open>
  A user (uuid 1) with one text document (uuid 10), one session on it (uuid 20) and two
  messages in the session.
\<close>

definition ex_document :: document where
  "ex_document = \<lparr>d_id = 10, d_user_id = 1, d_title = js ''notes.txt'', d_content = js ''alpha'',
     d_file_type = js ''text/plain'', d_file_size = 5, d_created_at = 100, d_updated_at = 100\<rparr>"

definition ex_session :: chat_session where
  "ex_session = \<lparr>s_id = 20, s_user_id = 1, s_document_id = 10, s_created_at = 200,
     s_updated_at = 200\<rparr>"

definition ex_question :: chat_message where
  "ex_question = \<lparr>m_id = 30, m_session_id = 20, m_role = User, m_content = js ''hi'',
     m_created_at = 300\<rparr>"

definition ex_reply :: chat_message where
  "ex_reply = \<lparr>m_id = 31, m_session_id = 20, m_role = Assistant, m_content = js ''hello'',
     m_created_at = 310\<rparr>"

definition ex_db :: database where
  "ex_db = \<lparr>documents = [ex_document], chat_sessions = [ex_session],
     chat_messages = [ex_question, ex_reply]\<rparr>"

text \<open>The same user with the document only: no session and no message yet.\<close>

definition ex_db_fresh :: database where
  "ex_db_fresh = \<lparr>documents = [ex_document], chat_sessions = [], chat_messages = []\<rparr>"

text \<open>The document is selected, its session is loaded, a question is typed.\<close>

definition ex_app :: app where
  "ex_app = \<lparr>db = ex_db, auth_user = Some 1, invocations = [], toasts = [],
     dash_documents = [ex_document], selectedDocId = Some 10,
     selectedDocContent = js ''alpha'', messages = [ex_question, ex_reply],
     input = js '' why? '', loading = False, sessionId = Some 20, uploading = False\<rparr>"

text \<open>A question is typed while no session id is set and the tables hold no session.\<close>

definition ex_app_unsent :: app where
  "ex_app_unsent = \<lparr>db = ex_db_fresh, auth_user = Some 1, invocations = [], toasts = [],
     dash_documents = [ex_document], selectedDocId = Some 10,
     selectedDocContent = js ''alpha'', messages = [],
     input = js ''hi'', loading = False, sessionId = None, uploading = False\<rparr>"

text \<open>Answers of the services: a request that goes through, and one that fails.\<close>

definition ex_ok :: "uuid \<Rightarrow> timestamptz \<Rightarrow> server" where
  "ex_ok i t = \<lparr>fault = None, gen_random_uuid = i, now = t\<rparr>"

definition ex_failed :: server where
  "ex_failed = \<lparr>fault = Some (Error (js ''Failed to fetch'')), gen_random_uuid = 0, now = 0\<rparr>"

definition ex_send_env :: send_env where
  "ex_send_env = \<lparr>user_insert = ex_ok 32 320, invoke_answer = Inr (js ''because''),
     assistant_insert = ex_ok 33 330\<rparr>"

definition ex_send_env_down :: send_env where
  "ex_send_env_down = \<lparr>user_insert = ex_ok 32 320,
     invoke_answer = Inl (Error (js ''Edge Function returned a non-2xx status code'')),
     assistant_insert = ex_ok 33 330\<rparr>"

definition ex_text_file :: js_file where
  "ex_text_file = \<lparr>f_name = js ''b.txt'', f_type = js ''text/plain'', f_size = 6,
     f_arrayBuffer = Inr [0x20, 0x62, 0x65, 0x74, 0x61, 0x0A],
     f_text = Inr ([0x0020] @ js ''beta'' @ [0x000A])\<rparr>"

definition ex_unreadable_file :: js_file where
  "ex_unreadable_file = \<lparr>f_name = js ''c.txt'', f_type = js ''text/plain'', f_size = 6,
     f_arrayBuffer = Inl (Error (js ''The requested file could not be read'')),
     f_text = Inl (Error (js ''The requested file could not be read''))\<rparr>"

definition ex_upload_env :: upload_env where
  "ex_upload_env = \<lparr>upload_user_fault = None, document_insert = ex_ok 11 400,
     upload_reload = ex_ok 0 401\<rparr>"

definition ex_session_env :: session_env where
  "ex_session_env = \<lparr>user_fault = None, sessions_select = ex_ok 0 500,
     session_insert = ex_ok 21 501, messages_select = ex_ok 0 502\<rparr>"

definition ex_session_env_flaky :: session_env where
  "ex_session_env_flaky = \<lparr>user_fault = None, sessions_select = ex_failed,
     session_insert = ex_ok 21 501, messages_select = ex_ok 0 502\<rparr>"

definition ex_delete_env :: delete_env where
  "ex_delete_env = \<lparr>document_delete = ex_ok 0 600, delete_reload = ex_ok 0 601\<rparr>"

text \<open>
  A second document of the same user (uuid 12), without a session, and a selection during
  which the user lookup fails.
\<close>

definition ex_document2 :: document where
  "ex_document2 = \<lparr>d_id = 12, d_user_id = 1, d_title = js ''more.txt'', d_content = js ''gamma'',
     d_file_type = js ''text/plain'', d_file_size = 5, d_created_at = 150, d_updated_at = 150\<rparr>"

definition ex_app_two :: app where
  "ex_app_two = ex_app\<lparr>db := ex_db\<lparr>documents := [ex_document, ex_document2]\<rparr>,
     dash_documents := [ex_document2, ex_document]\<rparr>"

definition ex_session_env_offline :: session_env where
  "ex_session_env_offline = \<lparr>user_fault = Some (Error (js ''Failed to fetch'')),
     sessions_select = ex_failed, session_insert = ex_failed, messages_select = ex_failed\<rparr>"

text \<open>
  A UTF-16 text file with a byte-order mark, read by \<open>text()\<close> as UTF-8: the mark becomes
  two replacement characters and every other code unit is U+0000.
\<close>

definition ex_utf16_file :: js_file where
  "ex_utf16_file = \<lparr>f_name = js ''d.txt'', f_type = js ''text/plain'', f_size = 6,
     f_arrayBuffer = Inr [0xFF, 0xFE, 0x68, 0x00, 0x69, 0x00],
     f_text = Inr [0xFFFD, 0xFFFD, 0x0068, 0x0000, 0x0069, 0x0000]\<rparr>"

text \<open>
  Both documents have a session and a message, and the state after the user signed out
  while the Dashboard still lists the documents.
\<close>

definition ex_session2 :: chat_session where
  "ex_session2 = \<lparr>s_id = 22, s_user_id = 1, s_document_id = 12, s_created_at = 250,
     s_updated_at = 250\<rparr>"

definition ex_question2 :: chat_message where
  "ex_question2 = \<lparr>m_id = 35, m_session_id = 22, m_role = User, m_content = js ''what'',
     m_created_at = 350\<rparr>"

definition ex_db_both :: database where
  "ex_db_both = \<lparr>documents = [ex_document, ex_document2],
     chat_sessions = [ex_session, ex_session2],
     chat_messages = [ex_question, ex_question2, ex_reply]\<rparr>"

definition ex_app_both :: app where
  "ex_app_both = ex_app\<lparr>db := ex_db_both, dash_documents := [ex_document2, ex_document]\<rparr>"

definition ex_app_signed_out :: app where
  "ex_app_signed_out = handleSignOut True ex_app_both"

section \<open>PDF text extraction\<close>

lemma extract_pages_all:
  assumes "i + length pages = Suc (numPages pdf)"
    and "\<forall>k<length pages. \<exists>page tc. getPage pdf (i + k) = Inr page \<and>
            getTextContent page = Inr tc \<and> map str (items tc) = pages ! k"
  shows "extract_pages pdf i acc =
           Inr (acc @ concat (map (\<lambda>p. join (js '' '') p @ [0x000A, 0x000A]) pages))"
  using assms
proof (induction pages arbitrary: i acc)
  case Nil
  then show ?case by (simp add: extract_pages.simps)
next
  case (Cons p ps)
  from Cons.prems(2) obtain page tc where pg: "getPage pdf i = Inr page"
    "getTextContent page = Inr tc" "map str (items tc) = p"
    by fastforce
  have le: "i \<le> numPages pdf" using Cons.prems(1) by simp
  have rest: "\<forall>k<length ps. \<exists>page tc. getPage pdf (Suc i + k) = Inr page \<and>
            getTextContent page = Inr tc \<and> map str (items tc) = ps ! k"
  proof (intro allI impI)
    fix k assume "k < length ps"
    then have "Suc k < length (p # ps)" by simp
    with Cons.prems(2) have "\<exists>page tc. getPage pdf (i + Suc k) = Inr page \<and>
            getTextContent page = Inr tc \<and> map str (items tc) = (p # ps) ! Suc k" by blast
    then show "\<exists>page tc. getPage pdf (Suc i + k) = Inr page \<and>
            getTextContent page = Inr tc \<and> map str (items tc) = ps ! k" by simp
  qed
  have "Suc i + length ps = Suc (numPages pdf)" using Cons.prems(1) by simp
  from Cons.IH [OF this rest]
  have ih: "extract_pages pdf (Suc i) acc' =
     Inr (acc' @ concat (map (\<lambda>p. join (js '' '') p @ [0x000A, 0x000A]) ps))" for acc' .
  show ?case
    by (subst extract_pages.simps) (simp add: le pg ih)
qed

text \<open>
  C3. When the file's bytes are read, the library opens the document and every page
  \<open>1 .. numPages\<close> yields its text items, \<open>extractTextFromPDF\<close> returns the pages' texts,
  each the page's item strings joined by one space and followed by two line feeds,
  concatenated in page order and trimmed at both ends; nothing else is done to the strings.
\<close>

theorem extractTextFromPDF_concatenates_pages:
  assumes "f_arrayBuffer f = Inr buf" and "getDocument buf = Inr pdf"
    and "numPages pdf = length pages"
    and "\<forall>k<length pages. \<exists>page tc. getPage pdf (Suc k) = Inr page \<and>
            getTextContent page = Inr tc \<and> map str (items tc) = pages ! k"
  shows "extractTextFromPDF getDocument f =
           Inr (trim (concat (map (\<lambda>p. join (js '' '') p @ [0x000A, 0x000A]) pages)))"
proof -
  have "extract_pages pdf 1 [] =
          Inr ([] @ concat (map (\<lambda>p. join (js '' '') p @ [0x000A, 0x000A]) pages))"
    by (rule extract_pages_all) (use assms in simp_all)
  then show ?thesis
    by (simp add: extractTextFromPDF_def assms)
qed

theorem extractTextFromPDF_concatenates_pages_witness:
  "f_arrayBuffer ex_pdf_file = Inr [0x25, 0x50, 0x44, 0x46] \<and>
   ex_getDocument [0x25, 0x50, 0x44, 0x46] = Inr ex_pdf \<and>
   numPages ex_pdf = length [[js '' Hello'', js ''world''], [js ''bye'']] \<and>
   extractTextFromPDF ex_getDocument ex_pdf_file =
     Inr (js ''Hello world'' @ [0x000A, 0x000A] @ js ''bye'')"
proof -
  have a: "f_arrayBuffer ex_pdf_file = Inr [0x25, 0x50, 0x44, 0x46]"
    by (simp add: ex_pdf_file_def)
  have b: "ex_getDocument [0x25, 0x50, 0x44, 0x46] = Inr ex_pdf"
    by (simp add: ex_getDocument_def)
  have c: "numPages ex_pdf = length [[js '' Hello'', js ''world''], [js ''bye'']]"
    by (simp add: ex_pdf_def)
  have d: "\<forall>k<length [[js '' Hello'', js ''world''], [js ''bye'']].
      \<exists>page tc. getPage ex_pdf (Suc k) = Inr page \<and> getTextContent page = Inr tc \<and>
         map str (items tc) = [[js '' Hello'', js ''world''], [js ''bye'']] ! k"
    by (simp add: ex_pdf_def ex_page_def less_Suc_eq)
  from extractTextFromPDF_concatenates_pages [where getDocument = ex_getDocument, OF a b c d]
    a b c show ?thesis
    by (simp add: js_def trim_def is_white_space_def)
qed

section \<open>Sending a message\<close>

lemmas ex_defs = ex_app_def ex_db_def ex_document_def ex_session_def ex_question_def
  ex_reply_def ex_ok_def ex_failed_def ex_send_env_def ex_send_env_down_def
  ex_app_unsent_def ex_db_fresh_def


lemma db_show_toast [simp]: "db (show_toast t s) = db s"
  by (simp add: show_toast_def)

lemma messages_show_toast [simp]: "messages (show_toast t s) = messages s"
  by (simp add: show_toast_def)

lemma invocations_show_toast [simp]: "invocations (show_toast t s) = invocations s"
  by (simp add: show_toast_def)

lemma toasts_show_toast [simp]: "toasts (show_toast t s) = toasts s @ [t]"
  by (simp add: show_toast_def)

lemma insert_chat_message_row:
  assumes "insert_chat_message srv uid sid r c dbase = Inr (row, db')"
  shows "db' = dbase\<lparr>chat_messages := chat_messages dbase @ [row]\<rparr> \<and>
         m_session_id row = sid \<and> m_role row = r \<and> m_content row = c \<and>
         m_id row = gen_random_uuid srv \<and> m_created_at row = now srv \<and>
         owns_session uid sid dbase \<and> fault srv = None \<and> pg_text c"
  using assms
  by (auto simp: insert_chat_message_def Let_def split: option.splits if_splits)

text \<open>
  C9. \<open>handleSend\<close> does nothing when the trimmed input is empty, when no session id is set,
  or when the document content is the empty string: the whole state is the one before, so no
  message row is inserted, the function is not invoked, and the message list is unchanged.
\<close>

theorem handleSend_noop_when_guarded:
  assumes "trim (input s) = [] \<or> sessionId s = None \<or> documentContent s = []"
  shows "handleSend env s = s"
  using assms by (simp add: handleSend_def)

theorem handleSend_noop_when_guarded_witness:
  "sessionId ex_app_unsent = None \<and> handleSend ex_send_env ex_app_unsent = ex_app_unsent \<and>
   trim (input (ex_app\<lparr>input := js ''  ''\<rparr>)) = [] \<and>
   handleSend ex_send_env (ex_app\<lparr>input := js ''  ''\<rparr>) = ex_app\<lparr>input := js ''  ''\<rparr> \<and>
   documentContent (ex_app\<lparr>selectedDocContent := []\<rparr>) = [] \<and>
   handleSend ex_send_env (ex_app\<lparr>selectedDocContent := []\<rparr>) = ex_app\<lparr>selectedDocContent := []\<rparr>"
proof -
  have a: "sessionId ex_app_unsent = None"
    by (simp add: ex_app_unsent_def)
  have b: "trim (input (ex_app\<lparr>input := js ''  ''\<rparr>)) = []"
    by (simp add: trim_def js_def is_white_space_def)
  have c: "documentContent (ex_app\<lparr>selectedDocContent := []\<rparr>) = []"
    by simp
  from a b c
    handleSend_noop_when_guarded [of ex_app_unsent ex_send_env]
    handleSend_noop_when_guarded [of "ex_app\<lparr>input := js ''  ''\<rparr>" ex_send_env]
    handleSend_noop_when_guarded [of "ex_app\<lparr>selectedDocContent := []\<rparr>" ex_send_env]
  show ?thesis by blast
qed


text \<open>
  C2. When the user's message was saved and the call to the function then fails, the
  tables are exactly the ones after the user-message insert: the user's row is the last
  row of \<open>chat_messages\<close>, the rows of role assistant are the ones from before, the displayed
  list ends with the user's message, and one notification carries the error.
\<close>

theorem handleSend_failed_invoke:
  assumes "trim (input s) \<noteq> []" and "sessionId s = Some sid" and "documentContent s \<noteq> []"
    and "insert_chat_message (user_insert env) (auth_user s) sid User (trim (input s)) (db s)
           = Inr (saved, db1)"
    and "invoke_answer env = Inl err"
  shows "db (handleSend env s) = db1 \<and>
         chat_messages db1 = chat_messages (db s) @ [saved] \<and>
         m_role saved = User \<and> m_content saved = trim (input s) \<and> m_session_id saved = sid \<and>
         filter (\<lambda>m. m_role m = Assistant) (chat_messages (db (handleSend env s))) =
           filter (\<lambda>m. m_role m = Assistant) (chat_messages (db s)) \<and>
         messages (handleSend env s) = messages s @ [saved] \<and>
         toasts (handleSend env s) = toasts s @ [error_toast ''Error'' err]"
proof -
  from insert_chat_message_row [OF assms(4)]
  have row: "db1 = (db s)\<lparr>chat_messages := chat_messages (db s) @ [saved]\<rparr>"
    "m_session_id saved = sid" "m_role saved = User" "m_content saved = trim (input s)"
    by simp_all
  have run: "handleSend env s =
    (show_toast (error_toast ''Error'' err)
      (s\<lparr>input := [], loading := True, db := db1, messages := messages s @ [saved],
         invocations := invocations s @
           [\<lparr>b_message = trim (input s), b_documentContent = documentContent s,
             b_sessionId = sid\<rparr>]\<rparr>))\<lparr>loading := False\<rparr>"
    using assms by (simp add: handleSend_def Let_def)
  show ?thesis
    unfolding run using row by simp
qed
theorem handleSend_failed_invoke_witness:
  "trim (input ex_app) \<noteq> [] \<and> sessionId ex_app = Some 20 \<and> documentContent ex_app \<noteq> [] \<and>
   invoke_answer ex_send_env_down =
     Inl (Error (js ''Edge Function returned a non-2xx status code'')) \<and>
   chat_messages (db (handleSend ex_send_env_down ex_app)) =
     [ex_question, ex_reply,
      \<lparr>m_id = 32, m_session_id = 20, m_role = User, m_content = js ''why?'',
        m_created_at = 320\<rparr>] \<and>
   messages (handleSend ex_send_env_down ex_app) =
     [ex_question, ex_reply,
      \<lparr>m_id = 32, m_session_id = 20, m_role = User, m_content = js ''why?'',
        m_created_at = 320\<rparr>]"
proof -
  have t: "trim (input ex_app) = js ''why?''"
    by (simp add: ex_app_def trim_def js_def is_white_space_def)
  have a: "trim (input ex_app) \<noteq> []"
    by (simp add: t js_def)
  have b: "sessionId ex_app = Some 20"
    by (simp add: ex_app_def)
  have c: "documentContent ex_app \<noteq> []"
    by (simp add: ex_app_def js_def)
  have d: "insert_chat_message (user_insert ex_send_env_down) (auth_user ex_app) 20 User
      (trim (input ex_app)) (db ex_app) =
      Inr (\<lparr>m_id = 32, m_session_id = 20, m_role = User, m_content = js ''why?'',
             m_created_at = 320\<rparr>,
           (db ex_app)\<lparr>chat_messages := chat_messages (db ex_app) @
             [\<lparr>m_id = 32, m_session_id = 20, m_role = User, m_content = js ''why?'',
               m_created_at = 320\<rparr>]\<rparr>)"
    unfolding t
    by (simp add: insert_chat_message_def pg_text_def owns_session_def ex_defs Let_def js_def)
  have e: "invoke_answer ex_send_env_down =
     Inl (Error (js ''Edge Function returned a non-2xx status code''))"
    by (simp add: ex_send_env_down_def)
  from handleSend_failed_invoke [OF a b c d e] a b c e show ?thesis
    by (simp add: ex_app_def ex_db_def)
qed

section \<open>Uploading a document\<close>

lemma db_selected_effect [simp]: "db (selected_effect s) = db s"
  by (simp add: selected_effect_def split: option.splits)

lemma db_loadDocuments [simp]: "db (loadDocuments srv s) = db s"
  by (simp add: loadDocuments_def split: sum.splits)

lemma getUser_Some: "getUser flt s = Some u \<Longrightarrow> auth_user s = Some u"
  by (simp add: getUser_def split: option.splits)

text \<open>
  C10. When the PDF text extraction fails, when reading the file fails, or when no user is
  signed in, \<open>handleFileUpload\<close> leaves the tables as they were: no document row is inserted.
\<close>

theorem handleFileUpload_failure_keeps_documents:
  assumes "(f_type f = js ''application/pdf'' \<and> extractTextFromPDF getDocument f = Inl e) \<or>
           (f_type f \<noteq> js ''application/pdf'' \<and> f_text f = Inl e) \<or>
           getUser (upload_user_fault env) s = None"
  shows "db (handleFileUpload getDocument env (Some f) s) = db s"
  using assms
  by (auto simp: handleFileUpload_def Let_def getUser_def split: sum.splits option.splits)

theorem handleFileUpload_failure_keeps_documents_witness:
  "f_type ex_unreadable_file \<noteq> js ''application/pdf'' \<and>
   f_text ex_unreadable_file = Inl (Error (js ''The requested file could not be read'')) \<and>
   db (handleFileUpload ex_getDocument ex_upload_env (Some ex_unreadable_file) ex_app) = db ex_app \<and>
   getUser (upload_user_fault ex_upload_env) (ex_app\<lparr>auth_user := None\<rparr>) = None \<and>
   db (handleFileUpload ex_getDocument ex_upload_env (Some ex_text_file)
         (ex_app\<lparr>auth_user := None\<rparr>)) = db ex_app \<and>
   f_type (ex_pdf_file\<lparr>f_arrayBuffer := Inr []\<rparr>) = js ''application/pdf'' \<and>
   extractTextFromPDF ex_getDocument (ex_pdf_file\<lparr>f_arrayBuffer := Inr []\<rparr>) =
     Inl (Error (js ''Invalid PDF structure'')) \<and>
   db (handleFileUpload ex_getDocument ex_upload_env
         (Some (ex_pdf_file\<lparr>f_arrayBuffer := Inr []\<rparr>)) ex_app) = db ex_app"
proof -
  have a: "f_type ex_unreadable_file \<noteq> js ''application/pdf'' \<and>
     f_text ex_unreadable_file = Inl (Error (js ''The requested file could not be read''))"
    by (simp add: ex_unreadable_file_def js_def)
  have b: "getUser (upload_user_fault ex_upload_env) (ex_app\<lparr>auth_user := None\<rparr>) = None"
    by (simp add: getUser_def ex_upload_env_def)
  have c: "f_type (ex_pdf_file\<lparr>f_arrayBuffer := Inr []\<rparr>) = js ''application/pdf'' \<and>
     extractTextFromPDF ex_getDocument (ex_pdf_file\<lparr>f_arrayBuffer := Inr []\<rparr>) =
       Inl (Error (js ''Invalid PDF structure''))"
    by (simp add: ex_pdf_file_def extractTextFromPDF_def ex_getDocument_def)
  from a b c
    handleFileUpload_failure_keeps_documents
      [of ex_unreadable_file ex_getDocument
          "Error (js ''The requested file could not be read'')" ex_upload_env ex_app]
    handleFileUpload_failure_keeps_documents
      [of ex_text_file ex_getDocument "Error []" ex_upload_env
          "ex_app\<lparr>auth_user := None\<rparr>"]
    handleFileUpload_failure_keeps_documents
      [of "ex_pdf_file\<lparr>f_arrayBuffer := Inr []\<rparr>" ex_getDocument
          "Error (js ''Invalid PDF structure'')" ex_upload_env ex_app]
  show ?thesis by simp
qed

text \<open>
  C4, as the code has it. For a file that is not a PDF, \<open>handleFileUpload\<close> either leaves
  the documents table as it was or appends exactly one row, whose content is the text read
  from the file, unchanged. The row is stored, with the file's name, type and size, when the
  text is read, a user is signed in, the request goes through and none of the name, the
  text and the type holds the code point U+0000. A text that holds U+0000 is refused by the
  \<open>text\<close> column and the tables stay as they were.
\<close>

theorem handleFileUpload_text_content_exact:
  assumes "f_type f \<noteq> js ''application/pdf''"
  shows "(documents (db (handleFileUpload getDocument env (Some f) s)) = documents (db s) \<or>
          (\<exists>row. documents (db (handleFileUpload getDocument env (Some f) s)) =
                   documents (db s) @ [row] \<and> f_text f = Inr (d_content row))) \<and>
         (\<forall>text user.
            f_text f = Inr text \<and> getUser (upload_user_fault env) s = Some user \<and>
            fault (document_insert env) = None \<and>
            gen_random_uuid (document_insert env) \<notin> set (map d_id (documents (db s))) \<and>
            pg_text (f_name f) \<and> pg_text text \<and> pg_text (f_type f) \<longrightarrow>
            documents (db (handleFileUpload getDocument env (Some f) s)) =
              documents (db s) @
                [\<lparr>d_id = gen_random_uuid (document_insert env), d_user_id = user,
                  d_title = f_name f, d_content = text, d_file_type = f_type f,
                  d_file_size = f_size f, d_created_at = now (document_insert env),
                  d_updated_at = now (document_insert env)\<rparr>]) \<and>
         (\<forall>text. f_text f = Inr text \<and> \<not> pg_text text \<longrightarrow>
            db (handleFileUpload getDocument env (Some f) s) = db s)"
proof (intro conjI allI impI)
  show "documents (db (handleFileUpload getDocument env (Some f) s)) = documents (db s) \<or>
          (\<exists>row. documents (db (handleFileUpload getDocument env (Some f) s)) =
                   documents (db s) @ [row] \<and> f_text f = Inr (d_content row))"
    using assms
    by (auto simp: handleFileUpload_def Let_def insert_document_def
        split: sum.splits option.splits if_splits)
next
  fix body user
  assume h: "f_text f = Inr body \<and> getUser (upload_user_fault env) s = Some user \<and>
            fault (document_insert env) = None \<and>
            gen_random_uuid (document_insert env) \<notin> set (map d_id (documents (db s))) \<and>
            pg_text (f_name f) \<and> pg_text body \<and> pg_text (f_type f)"
  then have "auth_user s = Some user" by (blast dest: getUser_Some)
  with h assms show "documents (db (handleFileUpload getDocument env (Some f) s)) =
              documents (db s) @
                [\<lparr>d_id = gen_random_uuid (document_insert env), d_user_id = user,
                  d_title = f_name f, d_content = body, d_file_type = f_type f,
                  d_file_size = f_size f, d_created_at = now (document_insert env),
                  d_updated_at = now (document_insert env)\<rparr>]"
    by (simp add: handleFileUpload_def Let_def insert_document_def getUser_def
        split: option.splits)
next
  fix body
  assume "f_text f = Inr body \<and> \<not> pg_text body"
  with assms show "db (handleFileUpload getDocument env (Some f) s) = db s"
    by (simp add: handleFileUpload_def Let_def insert_document_def
        split: option.splits)
qed

text \<open>
  C4 as stated fails for a text file whose text holds U+0000: the user is signed in and
  the request goes through, yet the insert is refused, no record is stored and the upload
  is reported as failed.
\<close>

theorem upload_text_with_nul_counterexample:
  "f_type ex_utf16_file \<noteq> js ''application/pdf'' \<and>
   f_text ex_utf16_file = Inr [0xFFFD, 0xFFFD, 0x0068, 0x0000, 0x0069, 0x0000] \<and>
   getUser (upload_user_fault ex_upload_env) ex_app = Some 1 \<and>
   fault (document_insert ex_upload_env) = None \<and>
   documents (db ex_app) = [ex_document] \<and>
   documents (db (handleFileUpload ex_getDocument ex_upload_env (Some ex_utf16_file) ex_app)) =
     [ex_document] \<and>
   toasts (handleFileUpload ex_getDocument ex_upload_env (Some ex_utf16_file) ex_app) =
     [error_toast ''Upload failed'' (Error (js ''unsupported Unicode escape sequence''))]"
  by (simp add: handleFileUpload_def insert_document_def pg_text_def getUser_def Let_def
      ex_utf16_file_def ex_upload_env_def ex_ok_def ex_app_def ex_db_def js_def)

theorem handleFileUpload_text_content_exact_witness:
  "f_type ex_text_file \<noteq> js ''application/pdf'' \<and>
   f_text ex_text_file = Inr ([0x0020] @ js ''beta'' @ [0x000A]) \<and>
   documents (db (handleFileUpload ex_getDocument ex_upload_env (Some ex_text_file) ex_app)) =
     [ex_document,
      \<lparr>d_id = 11, d_user_id = 1, d_title = js ''b.txt'',
        d_content = [0x0020] @ js ''beta'' @ [0x000A], d_file_type = js ''text/plain'',
        d_file_size = 6, d_created_at = 400, d_updated_at = 400\<rparr>] \<and>
   f_type ex_utf16_file \<noteq> js ''application/pdf'' \<and>
   f_text ex_utf16_file = Inr [0xFFFD, 0xFFFD, 0x0068, 0x0000, 0x0069, 0x0000] \<and>
   \<not> pg_text [0xFFFD, 0xFFFD, 0x0068, 0x0000, 0x0069, 0x0000] \<and>
   db (handleFileUpload ex_getDocument ex_upload_env (Some ex_utf16_file) ex_app) = db ex_app"
proof -
  have a: "f_type ex_text_file \<noteq> js ''application/pdf''"
    by (simp add: ex_text_file_def js_def)
  have b: "f_text ex_text_file = Inr ([0x0020] @ js ''beta'' @ [0x000A]) \<and>
    getUser (upload_user_fault ex_upload_env) ex_app = Some 1 \<and>
    fault (document_insert ex_upload_env) = None \<and>
    gen_random_uuid (document_insert ex_upload_env) \<notin> set (map d_id (documents (db ex_app))) \<and>
    pg_text (f_name ex_text_file) \<and> pg_text ([0x0020] @ js ''beta'' @ [0x000A]) \<and>
    pg_text (f_type ex_text_file)"
    by (simp add: ex_text_file_def ex_upload_env_def getUser_def ex_app_def ex_db_def
        ex_document_def ex_ok_def pg_text_def js_def)
  from handleFileUpload_text_content_exact [OF a, of ex_getDocument ex_upload_env ex_app] b
  have c: "documents (db (handleFileUpload ex_getDocument ex_upload_env (Some ex_text_file) ex_app)) =
     documents (db ex_app) @
       [\<lparr>d_id = gen_random_uuid (document_insert ex_upload_env), d_user_id = 1,
         d_title = f_name ex_text_file, d_content = [0x0020] @ js ''beta'' @ [0x000A],
         d_file_type = f_type ex_text_file, d_file_size = f_size ex_text_file,
         d_created_at = now (document_insert ex_upload_env),
         d_updated_at = now (document_insert ex_upload_env)\<rparr>]"
    by blast
  have d: "f_type ex_utf16_file \<noteq> js ''application/pdf''"
    by (simp add: ex_utf16_file_def js_def)
  have e: "f_text ex_utf16_file = Inr [0xFFFD, 0xFFFD, 0x0068, 0x0000, 0x0069, 0x0000] \<and>
    \<not> pg_text [0xFFFD, 0xFFFD, 0x0068, 0x0000, 0x0069, 0x0000]"
    by (simp add: ex_utf16_file_def pg_text_def)
  from handleFileUpload_text_content_exact [OF d, of ex_getDocument ex_upload_env ex_app] e
  have f: "db (handleFileUpload ex_getDocument ex_upload_env (Some ex_utf16_file) ex_app) =
      db ex_app"
    by blast
  from a b c d e f show ?thesis
    by (simp add: ex_text_file_def ex_upload_env_def ex_app_def ex_db_def ex_ok_def)
qed

section \<open>What each operation does to the tables\<close>

lemma db_handleSignOut [simp]: "db (handleSignOut cleared s) = db s"
  by (simp add: handleSignOut_def)

lemma db_loadMessages [simp]: "db (loadMessages srv sessId s) = db s"
  by (simp add: loadMessages_def split: sum.splits)

lemma insert_chat_session_row:
  assumes "insert_chat_session srv uid user doc dbase = Inr (row, db')"
  shows "db' = dbase\<lparr>chat_sessions := chat_sessions dbase @ [row]\<rparr> \<and>
         s_id row = gen_random_uuid srv \<and> s_user_id row = user \<and> s_document_id row = doc \<and>
         s_created_at row = now srv \<and> uid = Some user \<and> fault srv = None \<and>
         doc \<in> set (map d_id (documents dbase))"
  using assms
  by (auto simp: insert_chat_session_def Let_def split: option.splits if_splits)

lemma owns_session_more_messages [simp]:
  "owns_session uid sid (dbase\<lparr>chat_messages := ms\<rparr>) = owns_session uid sid dbase"
  by (simp add: owns_session_def)

text \<open>What one send does to the tables: it appends at most two rows to chat_messages.\<close>

lemma handleSend_db:
  "\<exists>added. db (handleSend env s) = (db s)\<lparr>chat_messages := chat_messages (db s) @ added\<rparr> \<and>
     (\<forall>m\<in>set added. sessionId s = Some (m_session_id m) \<and>
        owns_session (auth_user s) (m_session_id m) (db s))"
proof (cases "trim (input s) = [] \<or> sessionId s = None \<or> documentContent s = []")
  case True
  then have "handleSend env s = s" by (simp add: handleSend_def)
  then have "db (handleSend env s) = (db s)\<lparr>chat_messages := chat_messages (db s) @ []\<rparr>"
    by simp
  then show ?thesis by (metis empty_iff empty_set)
next
  case False
  then obtain sid where sid: "sessionId s = Some sid" by auto
  show ?thesis
  proof (cases "insert_chat_message (user_insert env) (auth_user s) sid User (trim (input s)) (db s)")
    case (Inl e)
    with False sid have "db (handleSend env s) = (db s)\<lparr>chat_messages := chat_messages (db s) @ []\<rparr>"
      by (simp add: handleSend_def Let_def)
    then show ?thesis by (metis empty_iff empty_set)
  next
    case (Inr p)
    obtain m1 db1 where p: "p = (m1, db1)" by (cases p)
    note r1 = insert_chat_message_row [OF Inr [unfolded p]]
    show ?thesis
    proof (cases "invoke_answer env")
      case (Inl err)
      with False sid Inr p
      have "db (handleSend env s) = db1"
        by (simp add: handleSend_def Let_def)
      with r1 sid have "db (handleSend env s) = (db s)\<lparr>chat_messages := chat_messages (db s) @ [m1]\<rparr> \<and>
        (\<forall>m\<in>set [m1]. sessionId s = Some (m_session_id m) \<and>
          owns_session (auth_user s) (m_session_id m) (db s))"
        by simp
      then show ?thesis by blast
    next
      case answer: (Inr assistantMsg)
      show ?thesis
      proof (cases "insert_chat_message (assistant_insert env) (auth_user s) sid Assistant assistantMsg db1")
        case (Inl e2)
        with False sid Inr p answer
        have "db (handleSend env s) = db1"
          by (simp add: handleSend_def Let_def)
        with r1 sid have "db (handleSend env s) = (db s)\<lparr>chat_messages := chat_messages (db s) @ [m1]\<rparr> \<and>
          (\<forall>m\<in>set [m1]. sessionId s = Some (m_session_id m) \<and>
            owns_session (auth_user s) (m_session_id m) (db s))"
          by simp
        then show ?thesis by blast
      next
        case second: (Inr q)
        obtain m2 db2 where q: "q = (m2, db2)" by (cases q)
        note r2 = insert_chat_message_row [OF second [unfolded q]]
        from False sid Inr p answer second q
        have "db (handleSend env s) = db2"
          by (simp add: handleSend_def Let_def)
        with r1 r2 sid have "db (handleSend env s) = (db s)\<lparr>chat_messages := chat_messages (db s) @ [m1, m2]\<rparr> \<and>
          (\<forall>m\<in>set [m1, m2]. sessionId s = Some (m_session_id m) \<and>
            owns_session (auth_user s) (m_session_id m) (db s))"
          by simp
        then show ?thesis by blast
      qed
    qed
  qed
qed

text \<open>What loading or creating a session does to the tables: at most one session row is appended.\<close>

lemma loadOrCreateSession_db:
  "db (loadOrCreateSession env s) = db s \<or>
   (\<exists>row. db (loadOrCreateSession env s) = (db s)\<lparr>chat_sessions := chat_sessions (db s) @ [row]\<rparr> \<and>
      documentId s = Some (s_document_id row) \<and> auth_user s = Some (s_user_id row) \<and>
      sessionId (loadOrCreateSession env s) = Some (s_id row) \<and>
      s_document_id row \<in> set (map d_id (documents (db s))))"
proof (cases "documentId s")
  case None
  then show ?thesis by (simp add: loadOrCreateSession_def)
next
  case (Some doc)
  show ?thesis
  proof (cases "getUser (user_fault env) s")
    case None
    with Some show ?thesis by (simp add: loadOrCreateSession_def)
  next
    case user: (Some user)
    show ?thesis
    proof (cases "insert_chat_session (session_insert env) (auth_user s) user doc (db s)")
      case (Inl e)
      with Some user show ?thesis
        by (simp add: loadOrCreateSession_def split: option.splits list.splits)
    next
      case (Inr p)
      obtain row db' where p: "p = (row, db')" by (cases p)
      note r = insert_chat_session_row [OF Inr [unfolded p]]
      with Some user Inr p show ?thesis
        by (auto simp: loadOrCreateSession_def split: option.splits list.splits)
    qed
  qed
qed

lemma db_selectDoc:
  "db (selectDoc env i s) = db s \<or>
   (\<exists>row. db (selectDoc env i s) = (db s)\<lparr>chat_sessions := chat_sessions (db s) @ [row]\<rparr>)"
proof (cases "selectedDocId s = Some i")
  case True
  then show ?thesis by (simp add: selectDoc_def)
next
  case False
  from loadOrCreateSession_db [of env "s\<lparr>selectedDocId := Some i\<rparr>"] False
  show ?thesis by (auto simp: selectDoc_def)
qed

lemma insert_document_row:
  assumes "insert_document srv uid user t c ty sz dbase = Inr db'"
  shows "\<exists>row. db' = dbase\<lparr>documents := documents dbase @ [row]\<rparr>"
proof -
  from assms have "db' = dbase\<lparr>documents := documents dbase @
      [\<lparr>d_id = gen_random_uuid srv, d_user_id = user, d_title = t, d_content = c,
        d_file_type = ty, d_file_size = sz, d_created_at = now srv,
        d_updated_at = now srv\<rparr>]\<rparr>"
    by (simp add: insert_document_def split: option.splits if_splits)
  then show ?thesis by blast
qed

lemma getUser_uploading [simp]: "getUser flt (s\<lparr>uploading := b\<rparr>) = getUser flt s"
  by (simp add: getUser_def split: option.splits)

lemma handleFileUpload_db:
  "db (handleFileUpload getDocument env chosen s) = db s \<or>
   (\<exists>row. db (handleFileUpload getDocument env chosen s) =
      (db s)\<lparr>documents := documents (db s) @ [row]\<rparr>)"
proof (cases chosen)
  case None
  then show ?thesis by (simp add: handleFileUpload_def)
next
  case (Some f)
  let ?read = "if f_type f = js ''application/pdf''
               then extractTextFromPDF getDocument f else f_text f"
  show ?thesis
  proof (cases ?read)
    case (Inl e)
    with Some show ?thesis by (simp add: handleFileUpload_def Let_def)
  next
    case (Inr body)
    show ?thesis
    proof (cases "getUser (upload_user_fault env) s")
      case None
      with Some Inr show ?thesis
        by (simp add: handleFileUpload_def Let_def)
    next
      case user: (Some user)
      then have gu: "getUser (upload_user_fault env) (s\<lparr>uploading := True\<rparr>) = Some user"
        by simp
      show ?thesis
      proof (cases "insert_document (document_insert env) (auth_user s) user (f_name f) body
                      (f_type f) (f_size f) (db s)")
        case refused: (Inl e)
        with Some Inr gu show ?thesis
          by (simp add: handleFileUpload_def Let_def)
      next
        case stored: (Inr db')
        from insert_document_row [OF stored] obtain row
          where "db' = (db s)\<lparr>documents := documents (db s) @ [row]\<rparr>" ..
        moreover from Some Inr gu stored
        have "db (handleFileUpload getDocument env chosen s) = db'"
          by (simp add: handleFileUpload_def Let_def)
        ultimately show ?thesis by blast
      qed
    qed
  qed
qed

lemma handleDelete_db:
  "db (handleDelete env i s) =
     (case delete_document (document_delete env) (auth_user s) i (db s) of
        Inl e \<Rightarrow> db s | Inr db' \<Rightarrow> db')"
  by (simp add: handleDelete_def split: sum.splits)

lemma sorted_positions:
  fixes f :: "'a \<Rightarrow> nat"
  assumes "sorted (map f xs)" and "a \<in> set xs" and "b \<in> set xs" and "f a < f b"
  shows "\<exists>j k. j < k \<and> k < length xs \<and> xs ! j = a \<and> xs ! k = b"
proof -
  from assms(2) obtain j where j: "j < length xs" "xs ! j = a"
    by (auto simp: in_set_conv_nth)
  from assms(3) obtain k where k: "k < length xs" "xs ! k = b"
    by (auto simp: in_set_conv_nth)
  have "j < k"
  proof (rule ccontr)
    assume "\<not> j < k"
    then have "k \<le> j" by simp
    with assms(1) j(1) have "map f xs ! k \<le> map f xs ! j"
      by (simp add: sorted_iff_nth_mono)
    with j k assms(4) show False by simp
  qed
  with j k show ?thesis by blast
qed

section \<open>Deleting a document\<close>

lemma toasts_loadDocuments:
  "\<exists>more. toasts (loadDocuments srv s) = toasts s @ more"
  by (auto simp: loadDocuments_def show_toast_def selected_effect_def
      split: sum.splits option.splits)

text \<open>
  C6, as the code has it. \<open>handleDelete\<close> succeeds whenever the delete request goes
  through, and then reports "Document deleted". When the signed-in user owns a document
  with the given id, the tables afterwards are exactly the ones before without that
  document, without the sessions that reference it and without the messages of those
  sessions: no session or message of the document remains and every other row is kept.
  When the DELETE policy hides the document from the requester, the same success is
  reported and the tables stay as they were.
\<close>

theorem handleDelete_cascades:
  assumes "fault (document_delete env) = None"
  shows "((\<exists>d\<in>set (documents (db s)). d_id d = i \<and> auth_user s = Some (d_user_id d)) \<longrightarrow>
            db (handleDelete env i s) =
              \<lparr>documents =
                 filter (\<lambda>d. \<not> (d_id d = i \<and> auth_user s = Some (d_user_id d)))
                   (documents (db s)),
               chat_sessions = filter (\<lambda>x. s_document_id x \<noteq> i) (chat_sessions (db s)),
               chat_messages =
                 filter (\<lambda>m. \<forall>x\<in>set (chat_sessions (db s)).
                               s_document_id x = i \<longrightarrow> s_id x \<noteq> m_session_id m)
                   (chat_messages (db s))\<rparr> \<and>
            (\<forall>x\<in>set (chat_sessions (db (handleDelete env i s))). s_document_id x \<noteq> i) \<and>
            (\<forall>m\<in>set (chat_messages (db (handleDelete env i s))).
               \<forall>x\<in>set (chat_sessions (db s)). s_document_id x = i \<longrightarrow> m_session_id m \<noteq> s_id x)) \<and>
         ((\<forall>d\<in>set (documents (db s)). d_id d = i \<longrightarrow> auth_user s \<noteq> Some (d_user_id d)) \<longrightarrow>
            db (handleDelete env i s) = db s) \<and>
         (\<exists>more. toasts (handleDelete env i s) =
            toasts s @ plain_toast ''Document deleted'' # more)"
proof -
  let ?deleted = "\<lambda>d. d_id d = i \<and> auth_user s = Some (d_user_id d)"
  let ?doc_ids = "map d_id (filter ?deleted (documents (db s)))"
  let ?cascaded = "\<lambda>x. s_document_id x \<in> set ?doc_ids"
  let ?session_ids = "map s_id (filter ?cascaded (chat_sessions (db s)))"
  let ?kept = "\<lambda>m. \<forall>x\<in>set (chat_sessions (db s)). s_document_id x = i \<longrightarrow> s_id x \<noteq> m_session_id m"
  have del: "delete_document (document_delete env) (auth_user s) i (db s) =
      Inr \<lparr>documents = filter (\<lambda>d. \<not> ?deleted d) (documents (db s)),
           chat_sessions = filter (\<lambda>x. \<not> ?cascaded x) (chat_sessions (db s)),
           chat_messages =
             filter (\<lambda>m. m_session_id m \<notin> set ?session_ids) (chat_messages (db s))\<rparr>"
    using assms by (simp add: delete_document_def Let_def)
  then have run: "db (handleDelete env i s) =
      \<lparr>documents = filter (\<lambda>d. \<not> ?deleted d) (documents (db s)),
       chat_sessions = filter (\<lambda>x. \<not> ?cascaded x) (chat_sessions (db s)),
       chat_messages =
         filter (\<lambda>m. m_session_id m \<notin> set ?session_ids) (chat_messages (db s))\<rparr>"
    by (simp add: handleDelete_db)
  have owned: "db (handleDelete env i s) =
        \<lparr>documents = filter (\<lambda>d. \<not> ?deleted d) (documents (db s)),
         chat_sessions = filter (\<lambda>x. s_document_id x \<noteq> i) (chat_sessions (db s)),
         chat_messages = filter ?kept (chat_messages (db s))\<rparr> \<and>
      (\<forall>x\<in>set (chat_sessions (db (handleDelete env i s))). s_document_id x \<noteq> i) \<and>
      (\<forall>m\<in>set (chat_messages (db (handleDelete env i s))).
         \<forall>x\<in>set (chat_sessions (db s)). s_document_id x = i \<longrightarrow> m_session_id m \<noteq> s_id x)"
    if ex: "\<exists>d\<in>set (documents (db s)). d_id d = i \<and> auth_user s = Some (d_user_id d)"
  proof -
    from ex have ids: "set ?doc_ids = {i}" by auto
    have c: "?cascaded x \<longleftrightarrow> s_document_id x = i" for x
      unfolding ids by simp
    have sess: "filter (\<lambda>x. \<not> ?cascaded x) (chat_sessions (db s)) =
        filter (\<lambda>x. s_document_id x \<noteq> i) (chat_sessions (db s))"
      unfolding c ..
    have k: "m_session_id m \<notin> set ?session_ids \<longleftrightarrow> ?kept m" for m
      unfolding c by (auto simp: image_iff)
    have msgs: "filter (\<lambda>m. m_session_id m \<notin> set ?session_ids) (chat_messages (db s)) =
        filter ?kept (chat_messages (db s))"
      unfolding k ..
    have eq: "db (handleDelete env i s) =
        \<lparr>documents = filter (\<lambda>d. \<not> ?deleted d) (documents (db s)),
         chat_sessions = filter (\<lambda>x. s_document_id x \<noteq> i) (chat_sessions (db s)),
         chat_messages = filter ?kept (chat_messages (db s))\<rparr>"
      unfolding run sess msgs ..
    have two: "\<forall>x\<in>set (chat_sessions (db (handleDelete env i s))). s_document_id x \<noteq> i"
      unfolding eq by simp
    have three: "\<forall>m\<in>set (chat_messages (db (handleDelete env i s))).
         \<forall>x\<in>set (chat_sessions (db s)). s_document_id x = i \<longrightarrow> m_session_id m \<noteq> s_id x"
      unfolding eq by auto
    from eq two three show ?thesis by blast
  qed
  have hidden: "db (handleDelete env i s) = db s"
    if no: "\<forall>d\<in>set (documents (db s)). d_id d = i \<longrightarrow> auth_user s \<noteq> Some (d_user_id d)"
  proof -
    from no have none: "filter ?deleted (documents (db s)) = []"
      by (auto simp: filter_empty_conv)
    have docs: "filter (\<lambda>d. \<not> ?deleted d) (documents (db s)) = documents (db s)"
      using no by (auto simp: filter_id_conv)
    show ?thesis
      unfolding run none docs by simp
  qed
  have said: "\<exists>more. toasts (handleDelete env i s) =
      toasts s @ plain_toast ''Document deleted'' # more"
  proof -
    from del obtain db' where run': "handleDelete env i s =
        loadDocuments (delete_reload env)
          (show_toast (plain_toast ''Document deleted'') (s\<lparr>db := db'\<rparr>))"
      by (simp add: handleDelete_def)
    from toasts_loadDocuments [of "delete_reload env"
        "show_toast (plain_toast ''Document deleted'') (s\<lparr>db := db'\<rparr>)"]
    show ?thesis unfolding run' by (simp add: show_toast_def)
  qed
  from owned hidden said show ?thesis by blast
qed

text \<open>
  C6 as stated fails when the DELETE policy hides the document: after the user signed out,
  \<open>handleDelete\<close> for document 10 succeeds and reports "Document deleted", and the
  document, its session and its messages are all still there.
\<close>

theorem delete_hidden_document_counterexample:
  "auth_user ex_app_signed_out = None \<and>
   fault (document_delete ex_delete_env) = None \<and>
   toasts (handleDelete ex_delete_env 10 ex_app_signed_out) =
     [plain_toast ''Signed out successfully'', plain_toast ''Document deleted''] \<and>
   documents (db (handleDelete ex_delete_env 10 ex_app_signed_out)) =
     [ex_document, ex_document2] \<and>
   d_id ex_document = 10 \<and>
   chat_sessions (db (handleDelete ex_delete_env 10 ex_app_signed_out)) =
     [ex_session, ex_session2] \<and>
   s_document_id ex_session = 10 \<and>
   chat_messages (db (handleDelete ex_delete_env 10 ex_app_signed_out)) =
     [ex_question, ex_question2, ex_reply] \<and>
   m_session_id ex_question = s_id ex_session"
  by (simp add: handleDelete_def delete_document_def loadDocuments_def select_documents_def
      selected_effect_def show_toast_def handleSignOut_def Let_def ex_app_signed_out_def
      ex_app_both_def ex_db_both_def ex_delete_env_def ex_defs ex_document2_def
      ex_session2_def ex_question2_def)

theorem handleDelete_cascades_witness:
  "fault (document_delete ex_delete_env) = None \<and>
   ex_document \<in> set (documents (db ex_app_both)) \<and> d_id ex_document = 10 \<and>
   auth_user ex_app_both = Some (d_user_id ex_document) \<and>
   db ex_app_both = ex_db_both \<and>
   db (handleDelete ex_delete_env 10 ex_app_both) =
     \<lparr>documents = [ex_document2], chat_sessions = [ex_session2],
      chat_messages = [ex_question2]\<rparr> \<and>
   auth_user ex_app_signed_out = None \<and>
   db (handleDelete ex_delete_env 10 ex_app_signed_out) = db ex_app_signed_out"
proof -
  have a: "fault (document_delete ex_delete_env) = None"
    by (simp add: ex_delete_env_def ex_ok_def)
  have b: "\<exists>d\<in>set (documents (db ex_app_both)).
      d_id d = 10 \<and> auth_user ex_app_both = Some (d_user_id d)"
    by (simp add: ex_app_both_def ex_app_def ex_db_both_def ex_document_def)
  have b': "ex_document \<in> set (documents (db ex_app_both)) \<and> d_id ex_document = 10 \<and>
      auth_user ex_app_both = Some (d_user_id ex_document)"
    by (simp add: ex_app_both_def ex_app_def ex_db_both_def ex_document_def)
  have c: "db ex_app_both = ex_db_both"
    by (simp add: ex_app_both_def)
  have d: "auth_user ex_app_both = Some 1"
    by (simp add: ex_app_both_def ex_app_def)
  have e': "auth_user ex_app_signed_out = None"
    by (simp add: ex_app_signed_out_def handleSignOut_def show_toast_def)
  then have e: "\<forall>d\<in>set (documents (db ex_app_signed_out)).
      d_id d = 10 \<longrightarrow> auth_user ex_app_signed_out \<noteq> Some (d_user_id d)"
    by simp
  from handleDelete_cascades [OF a, of ex_app_both 10] b
  have "db (handleDelete ex_delete_env 10 ex_app_both) =
      \<lparr>documents =
         filter (\<lambda>d. \<not> (d_id d = 10 \<and> auth_user ex_app_both = Some (d_user_id d)))
           (documents (db ex_app_both)),
       chat_sessions = filter (\<lambda>x. s_document_id x \<noteq> 10) (chat_sessions (db ex_app_both)),
       chat_messages =
         filter (\<lambda>m. \<forall>x\<in>set (chat_sessions (db ex_app_both)).
                       s_document_id x = 10 \<longrightarrow> s_id x \<noteq> m_session_id m)
           (chat_messages (db ex_app_both))\<rparr>"
    by blast
  then have f: "db (handleDelete ex_delete_env 10 ex_app_both) =
     \<lparr>documents = [ex_document2], chat_sessions = [ex_session2],
      chat_messages = [ex_question2]\<rparr>"
    unfolding c d
    by (simp add: ex_db_both_def ex_document_def ex_document2_def ex_session_def
        ex_session2_def ex_question_def ex_question2_def ex_reply_def)
  from handleDelete_cascades [OF a, of ex_app_signed_out 10] e
  have g: "db (handleDelete ex_delete_env 10 ex_app_signed_out) = db ex_app_signed_out"
    by blast
  from a b' c e' f g show ?thesis by simp
qed

section \<open>Invariants of the tables\<close>

text \<open>
  C8. No operation changes the content of a stored document. Every operation other than an
  upload and a delete leaves the documents table as it was; an upload leaves it as it was or
  appends one row; a delete removes whole rows and leaves every other row as it was.
\<close>

theorem document_content_immutable:
  "((\<forall>g env c. a \<noteq> HandleFileUpload g env c) \<and> (\<forall>env i. a \<noteq> HandleDelete env i) \<longrightarrow>
      documents (db (perform a s)) = documents (db s)) \<and>
   (documents (db (perform (HandleFileUpload g env c) s)) = documents (db s) \<or>
    (\<exists>row. documents (db (perform (HandleFileUpload g env c) s)) = documents (db s) @ [row])) \<and>
   (\<exists>P. documents (db (perform (HandleDelete denv i) s)) = filter P (documents (db s)))"
proof (intro conjI impI)
  assume other: "(\<forall>g env c. a \<noteq> HandleFileUpload g env c) \<and> (\<forall>env i. a \<noteq> HandleDelete env i)"
  show "documents (db (perform a s)) = documents (db s)"
  proof (cases a)
    case (LoadDocuments srv)
    then show ?thesis by simp
  next
    case (HandleSignOut cleared)
    then show ?thesis by simp
  next
    case (SelectDoc env i)
    with db_selectDoc [of env i s] show ?thesis by auto
  next
    case (SetInput v)
    then show ?thesis by simp
  next
    case (HandleSend env)
    with handleSend_db [of env s] show ?thesis by auto
  next
    case (HandleFileUpload g env c)
    with other show ?thesis by blast
  next
    case (HandleDelete env i)
    with other show ?thesis by blast
  qed
next
  from handleFileUpload_db [of g env c s]
  show "documents (db (perform (HandleFileUpload g env c) s)) = documents (db s) \<or>
    (\<exists>row. documents (db (perform (HandleFileUpload g env c) s)) = documents (db s) @ [row])"
    by auto
next
  show "\<exists>P. documents (db (perform (HandleDelete denv i) s)) = filter P (documents (db s))"
  proof (cases "delete_document (document_delete denv) (auth_user s) i (db s)")
    case (Inl e)
    then have "documents (db (perform (HandleDelete denv i) s)) =
        filter (\<lambda>d. True) (documents (db s))"
      by (simp add: handleDelete_db)
    then show ?thesis by blast
  next
    case (Inr db')
    then have "documents (db (perform (HandleDelete denv i) s)) =
        filter (\<lambda>d. \<not> (d_id d = i \<and> auth_user s = Some (d_user_id d))) (documents (db s))"
      by (auto simp: handleDelete_db delete_document_def Let_def split: option.splits)
    then show ?thesis by blast
  qed
qed

theorem document_content_immutable_witness:
  "(\<forall>g env c. HandleSend ex_send_env \<noteq> HandleFileUpload g env c) \<and>
   (\<forall>env i. HandleSend ex_send_env \<noteq> HandleDelete env i) \<and>
   documents (db (perform (HandleSend ex_send_env) ex_app)) = [ex_document] \<and>
   documents (db ex_app) = [ex_document]"
proof -
  have a: "(\<forall>g env c. HandleSend ex_send_env \<noteq> HandleFileUpload g env c) \<and>
     (\<forall>env i. HandleSend ex_send_env \<noteq> HandleDelete env i)"
    by simp
  have b: "documents (db ex_app) = [ex_document]"
    by (simp add: ex_app_def ex_db_def)
  from document_content_immutable [of "HandleSend ex_send_env" ex_app] a b
  show ?thesis by simp
qed

text \<open>
  C7. Messages are append-only and ordered by creation time. Every operation other than
  deleting a document leaves the stored messages in place and at most appends rows;
  deleting a document removes the messages of whole sessions and changes no other row.
  When the query of \<open>loadMessages\<close> goes through, the list it shows is the session's
  messages in ascending order of \<open>created_at\<close>: of two messages of the session, the one
  created earlier comes first.
\<close>

theorem messages_append_only_and_ordered:
  "((\<forall>env i. a \<noteq> HandleDelete env i) \<longrightarrow>
      (\<exists>added. chat_messages (db (perform a s)) = chat_messages (db s) @ added)) \<and>
   (\<exists>gone. chat_messages (db (perform (HandleDelete denv i) s)) =
      filter (\<lambda>m. m_session_id m \<notin> gone) (chat_messages (db s))) \<and>
   (fault srv = None \<longrightarrow>
      sorted (map m_created_at (messages (loadMessages srv sessId s))) \<and>
      mset (messages (loadMessages srv sessId s)) =
        mset (filter (\<lambda>m. owns_session (auth_user s) (m_session_id m) (db s) \<and>
                          m_session_id m = sessId) (chat_messages (db s))) \<and>
      (\<forall>m1 m2. m1 \<in> set (chat_messages (db s)) \<and> m2 \<in> set (chat_messages (db s)) \<and>
         m_session_id m1 = sessId \<and> m_session_id m2 = sessId \<and>
         owns_session (auth_user s) sessId (db s) \<and> m_created_at m1 < m_created_at m2 \<longrightarrow>
         (\<exists>j k. j < k \<and> k < length (messages (loadMessages srv sessId s)) \<and>
            messages (loadMessages srv sessId s) ! j = m1 \<and>
            messages (loadMessages srv sessId s) ! k = m2)))"
proof (intro conjI impI)
  assume other: "\<forall>env i. a \<noteq> HandleDelete env i"
  show "\<exists>added. chat_messages (db (perform a s)) = chat_messages (db s) @ added"
  proof (cases a)
    case (LoadDocuments srv)
    then show ?thesis by simp
  next
    case (HandleSignOut cleared)
    then show ?thesis by simp
  next
    case (SelectDoc env i)
    with db_selectDoc [of env i s] show ?thesis by auto
  next
    case (SetInput v)
    then show ?thesis by simp
  next
    case (HandleSend env)
    with handleSend_db [of env s] show ?thesis by auto
  next
    case (HandleFileUpload g env c)
    with handleFileUpload_db [of g env c s] show ?thesis by auto
  next
    case (HandleDelete env i)
    with other show ?thesis by blast
  qed
next
  show "\<exists>gone. chat_messages (db (perform (HandleDelete denv i) s)) =
      filter (\<lambda>m. m_session_id m \<notin> gone) (chat_messages (db s))"
  proof (cases "delete_document (document_delete denv) (auth_user s) i (db s)")
    case (Inl e)
    then have "chat_messages (db (perform (HandleDelete denv i) s)) =
        filter (\<lambda>m. m_session_id m \<notin> {}) (chat_messages (db s))"
      by (simp add: handleDelete_db)
    then show ?thesis by blast
  next
    case (Inr db')
    then have "\<exists>gone. chat_messages db' = filter (\<lambda>m. m_session_id m \<notin> gone) (chat_messages (db s))"
      by (auto simp: delete_document_def Let_def split: option.splits)
    with Inr show ?thesis by (simp add: handleDelete_db)
  qed
next
  assume ok: "fault srv = None"
  let ?rows = "filter (\<lambda>m. owns_session (auth_user s) (m_session_id m) (db s) \<and>
                          m_session_id m = sessId) (chat_messages (db s))"
  have run: "messages (loadMessages srv sessId s) = sort_key m_created_at ?rows"
    using ok by (simp add: loadMessages_def select_messages_def)
  show sorted: "sorted (map m_created_at (messages (loadMessages srv sessId s)))"
    unfolding run by simp
  show "mset (messages (loadMessages srv sessId s)) = mset ?rows"
    unfolding run by simp
  show "\<forall>m1 m2. m1 \<in> set (chat_messages (db s)) \<and> m2 \<in> set (chat_messages (db s)) \<and>
         m_session_id m1 = sessId \<and> m_session_id m2 = sessId \<and>
         owns_session (auth_user s) sessId (db s) \<and> m_created_at m1 < m_created_at m2 \<longrightarrow>
         (\<exists>j k. j < k \<and> k < length (messages (loadMessages srv sessId s)) \<and>
            messages (loadMessages srv sessId s) ! j = m1 \<and>
            messages (loadMessages srv sessId s) ! k = m2)"
  proof (intro allI impI)
    fix m1 m2
    assume h: "m1 \<in> set (chat_messages (db s)) \<and> m2 \<in> set (chat_messages (db s)) \<and>
         m_session_id m1 = sessId \<and> m_session_id m2 = sessId \<and>
         owns_session (auth_user s) sessId (db s) \<and> m_created_at m1 < m_created_at m2"
    then have "m1 \<in> set (messages (loadMessages srv sessId s))"
      "m2 \<in> set (messages (loadMessages srv sessId s))"
      unfolding run by simp_all
    with sorted h show "\<exists>j k. j < k \<and> k < length (messages (loadMessages srv sessId s)) \<and>
            messages (loadMessages srv sessId s) ! j = m1 \<and>
            messages (loadMessages srv sessId s) ! k = m2"
      by (blast intro: sorted_positions)
  qed
qed

theorem messages_append_only_and_ordered_witness:
  "(\<forall>env i. HandleSend ex_send_env \<noteq> HandleDelete env i) \<and>
   fault (ex_ok 0 700) = None \<and>
   chat_messages (db (perform (HandleSend ex_send_env) ex_app)) =
     chat_messages (db ex_app) @
       [\<lparr>m_id = 32, m_session_id = 20, m_role = User, m_content = js ''why?'',
         m_created_at = 320\<rparr>,
        \<lparr>m_id = 33, m_session_id = 20, m_role = Assistant, m_content = js ''because'',
         m_created_at = 330\<rparr>] \<and>
   sorted (map m_created_at
     (messages (loadMessages (ex_ok 0 700) 20 (perform (HandleSend ex_send_env) ex_app)))) \<and>
   messages (loadMessages (ex_ok 0 700) 20 (perform (HandleSend ex_send_env) ex_app)) =
     [ex_question, ex_reply,
      \<lparr>m_id = 32, m_session_id = 20, m_role = User, m_content = js ''why?'',
        m_created_at = 320\<rparr>,
      \<lparr>m_id = 33, m_session_id = 20, m_role = Assistant, m_content = js ''because'',
        m_created_at = 330\<rparr>]"
proof -
  have a: "\<forall>env i. HandleSend ex_send_env \<noteq> HandleDelete env i"
    by simp
  have b: "fault (ex_ok 0 700) = None"
    by (simp add: ex_ok_def)
  have c: "db (perform (HandleSend ex_send_env) ex_app) =
     (db ex_app)\<lparr>chat_messages := chat_messages (db ex_app) @
       [\<lparr>m_id = 32, m_session_id = 20, m_role = User, m_content = js ''why?'',
         m_created_at = 320\<rparr>,
        \<lparr>m_id = 33, m_session_id = 20, m_role = Assistant, m_content = js ''because'',
         m_created_at = 330\<rparr>]\<rparr>"
    by (simp add: handleSend_def trim_def is_white_space_def Let_def insert_chat_message_def pg_text_def
        owns_session_def ex_defs js_def)
  have d: "auth_user (perform (HandleSend ex_send_env) ex_app) = Some 1"
    by (simp add: handleSend_def trim_def is_white_space_def Let_def insert_chat_message_def pg_text_def
        owns_session_def ex_defs js_def)
  have e: "messages (loadMessages (ex_ok 0 700) 20 (perform (HandleSend ex_send_env) ex_app)) =
     [ex_question, ex_reply,
      \<lparr>m_id = 32, m_session_id = 20, m_role = User, m_content = js ''why?'',
        m_created_at = 320\<rparr>,
      \<lparr>m_id = 33, m_session_id = 20, m_role = Assistant, m_content = js ''because'',
        m_created_at = 330\<rparr>]"
    unfolding loadMessages_def select_messages_def c d
    by (simp add: owns_session_def ex_ok_def ex_app_def ex_db_def ex_session_def
        ex_question_def ex_reply_def)
  from messages_append_only_and_ordered
    [of "HandleSend ex_send_env" "perform (HandleSend ex_send_env) ex_app" _ _ "ex_ok 0 700" 20]
    b
  have f: "sorted (map m_created_at
     (messages (loadMessages (ex_ok 0 700) 20 (perform (HandleSend ex_send_env) ex_app))))"
    by blast
  from a b c e f show ?thesis by simp
qed

section \<open>Sessions\<close>

lemma owns_session_iff:
  "owns_session uid sid dbase \<longleftrightarrow>
     (\<exists>x\<in>set (chat_sessions dbase). s_id x = sid \<and> uid = Some (s_user_id x))"
  by (simp add: owns_session_def list_ex_iff)

lemma loadOrCreateSession_creates:
  assumes "documentId s = Some doc" and "getUser (user_fault env) s = Some user"
    and "fault (sessions_select env) = None"
    and "\<forall>x\<in>set (chat_sessions (db s)). \<not> (s_user_id x = user \<and> s_document_id x = doc)"
    and "insert_chat_session (session_insert env) (auth_user s) user doc (db s) = Inr (row, db')"
  shows "loadOrCreateSession env s = s\<lparr>db := db', sessionId := Some (s_id row), messages := []\<rparr>"
proof -
  from assms(4) have "filter (\<lambda>x. auth_user s = Some (s_user_id x) \<and> s_document_id x = doc \<and>
       s_user_id x = user) (chat_sessions (db s)) = []"
    by (auto simp: filter_empty_conv)
  with assms(3) have "select_sessions (sessions_select env) (auth_user s) doc user (db s) = Inr []"
    by (simp add: select_sessions_def)
  with assms(1,2,5) show ?thesis
    by (simp add: loadOrCreateSession_def)
qed

lemma newest_first:
  fixes f :: "'a \<Rightarrow> nat"
  assumes "xs \<noteq> []"
  shows "\<exists>y ys. rev (sort_key f xs) = y # ys \<and> y \<in> set xs \<and> (\<forall>z\<in>set xs. f z \<le> f y)"
proof -
  let ?s = "sort_key f xs"
  from assms have ne: "?s \<noteq> []" by (metis length_0_conv length_sort)
  then have r: "rev ?s = last ?s # rev (butlast ?s)"
    by (metis append_butlast_last_id rev.simps(2) rev_append rev_rev_ident append_Nil)
  have mem: "last ?s \<in> set xs"
    using ne by (metis last_in_set set_sort)
  have "\<forall>z\<in>set xs. f z \<le> f (last ?s)"
  proof
    fix z assume "z \<in> set xs"
    then have "z \<in> set ?s" by simp
    then obtain j where j: "j < length ?s" "?s ! j = z"
      unfolding in_set_conv_nth by blast
    have srt: "sorted (map f ?s)" by simp
    have "j \<le> length ?s - 1" "length ?s - 1 < length (map f ?s)"
      using j(1) by simp_all
    with srt have "map f ?s ! j \<le> map f ?s ! (length ?s - 1)"
      by (rule sorted_nth_mono)
    moreover have "map f ?s ! j = f z"
      using j by simp
    moreover have "map f ?s ! (length ?s - 1) = f (last ?s)"
      using ne j(1) by (simp add: last_conv_nth)
    ultimately show "f z \<le> f (last ?s)"
      by simp
  qed
  with r mem show ?thesis by blast
qed

text \<open>
  When the session query goes through and the pair has a session, the newest one is taken
  and the tables stay as they were.
\<close>

lemma loadOrCreateSession_reuses_newest:
  assumes "documentId s = Some doc" and "getUser (user_fault env) s = Some user"
    and "fault (sessions_select env) = None"
    and "x \<in> set (chat_sessions (db s))" and "s_user_id x = user" and "s_document_id x = doc"
  shows "db (loadOrCreateSession env s) = db s \<and>
         (\<exists>y\<in>set (chat_sessions (db s)). s_user_id y = user \<and> s_document_id y = doc \<and>
            sessionId (loadOrCreateSession env s) = Some (s_id y) \<and>
            (\<forall>z\<in>set (chat_sessions (db s)). s_user_id z = user \<and> s_document_id z = doc \<longrightarrow>
               s_created_at z \<le> s_created_at y))"
proof -
  let ?rows = "filter (\<lambda>x. auth_user s = Some (s_user_id x) \<and> s_document_id x = doc \<and>
       s_user_id x = user) (chat_sessions (db s))"
  from assms(2) have auth: "auth_user s = Some user" by (rule getUser_Some)
  with assms(4-6) have "x \<in> set ?rows" by simp
  then have "?rows \<noteq> []" by (metis empty_iff empty_set)
  from newest_first [OF this, of s_created_at]
  obtain y ys where y: "rev (sort_key s_created_at ?rows) = y # ys" "y \<in> set ?rows"
    "\<forall>z\<in>set ?rows. s_created_at z \<le> s_created_at y"
    by blast
  have "select_sessions (sessions_select env) (auth_user s) doc user (db s) = Inr [s_id y]"
    using assms(3) y(1) by (simp add: select_sessions_def)
  with assms(1,2) have run: "loadOrCreateSession env s =
      loadMessages (messages_select env) (s_id y) (s\<lparr>sessionId := Some (s_id y)\<rparr>)"
    by (simp add: loadOrCreateSession_def)
  have sid: "sessionId (loadOrCreateSession env s) = Some (s_id y)"
    unfolding run by (simp add: loadMessages_def show_toast_def split: sum.splits)
  have dbs: "db (loadOrCreateSession env s) = db s"
    unfolding run by simp
  have own: "y \<in> set (chat_sessions (db s))" "s_user_id y = user" "s_document_id y = doc"
    using y(2) by simp_all
  have newest: "\<forall>z\<in>set (chat_sessions (db s)). s_user_id z = user \<and> s_document_id z = doc \<longrightarrow>
               s_created_at z \<le> s_created_at y"
  proof (intro ballI impI)
    fix z assume "z \<in> set (chat_sessions (db s))" "s_user_id z = user \<and> s_document_id z = doc"
    with auth have "z \<in> set ?rows" by simp
    with y(3) show "s_created_at z \<le> s_created_at y" by blast
  qed
  from own sid newest dbs show ?thesis by blast
qed

text \<open>
  C1, as the code has it. Sending never creates a session: \<open>handleSend\<close> leaves
  \<open>chat_sessions\<close> as it was, and with no session id set it does nothing at all. A message
  row is inserted only under the session id that is set, and only when a session row with
  that id, owned by the signed-in user, exists. The session is created when the document is
  selected: when the query of \<open>loadOrCreateSession\<close> goes through and finds no session of
  the user for the document, and the insert is accepted, exactly one session row is appended
  and its id becomes the session id.
\<close>

theorem session_created_on_selection_never_on_send:
  "chat_sessions (db (handleSend env s)) = chat_sessions (db s) \<and>
   (sessionId s = None \<longrightarrow> handleSend env s = s) \<and>
   (\<forall>m\<in>set (chat_messages (db (handleSend env s))).
      m \<in> set (chat_messages (db s)) \<or>
      (sessionId s = Some (m_session_id m) \<and>
       (\<exists>x\<in>set (chat_sessions (db s)).
          s_id x = m_session_id m \<and> auth_user s = Some (s_user_id x)))) \<and>
   (documentId s = Some doc \<and> getUser (user_fault lenv) s = Some user \<and>
    fault (sessions_select lenv) = None \<and>
    (\<forall>x\<in>set (chat_sessions (db s)). \<not> (s_user_id x = user \<and> s_document_id x = doc)) \<and>
    fault (session_insert lenv) = None \<and>
    gen_random_uuid (session_insert lenv) \<notin> set (map s_id (chat_sessions (db s))) \<and>
    doc \<in> set (map d_id (documents (db s))) \<longrightarrow>
    chat_sessions (db (loadOrCreateSession lenv s)) =
      chat_sessions (db s) @
        [\<lparr>s_id = gen_random_uuid (session_insert lenv), s_user_id = user,
          s_document_id = doc, s_created_at = now (session_insert lenv),
          s_updated_at = now (session_insert lenv)\<rparr>] \<and>
    sessionId (loadOrCreateSession lenv s) = Some (gen_random_uuid (session_insert lenv)) \<and>
    chat_messages (db (loadOrCreateSession lenv s)) = chat_messages (db s))"
proof (intro conjI impI)
  obtain added where added:
    "db (handleSend env s) = (db s)\<lparr>chat_messages := chat_messages (db s) @ added\<rparr>"
    "\<forall>m\<in>set added. sessionId s = Some (m_session_id m) \<and>
        owns_session (auth_user s) (m_session_id m) (db s)"
    using handleSend_db [of env s] by blast
  show "chat_sessions (db (handleSend env s)) = chat_sessions (db s)"
    by (simp add: added(1))
  show "\<forall>m\<in>set (chat_messages (db (handleSend env s))).
      m \<in> set (chat_messages (db s)) \<or>
      (sessionId s = Some (m_session_id m) \<and>
       (\<exists>x\<in>set (chat_sessions (db s)).
          s_id x = m_session_id m \<and> auth_user s = Some (s_user_id x)))"
    using added(2) by (auto simp: added(1) owns_session_iff)
next
  assume "sessionId s = None"
  then show "handleSend env s = s" by (simp add: handleSend_def)
next
  assume h: "documentId s = Some doc \<and> getUser (user_fault lenv) s = Some user \<and>
    fault (sessions_select lenv) = None \<and>
    (\<forall>x\<in>set (chat_sessions (db s)). \<not> (s_user_id x = user \<and> s_document_id x = doc)) \<and>
    fault (session_insert lenv) = None \<and>
    gen_random_uuid (session_insert lenv) \<notin> set (map s_id (chat_sessions (db s))) \<and>
    doc \<in> set (map d_id (documents (db s)))"
  let ?row = "\<lparr>s_id = gen_random_uuid (session_insert lenv), s_user_id = user,
          s_document_id = doc, s_created_at = now (session_insert lenv),
          s_updated_at = now (session_insert lenv)\<rparr>"
  from h have "auth_user s = Some user" by (blast dest: getUser_Some)
  with h have ins: "insert_chat_session (session_insert lenv) (auth_user s) user doc (db s) =
      Inr (?row, (db s)\<lparr>chat_sessions := chat_sessions (db s) @ [?row]\<rparr>)"
    by (simp add: insert_chat_session_def Let_def)
  from h have run: "loadOrCreateSession lenv s =
      s\<lparr>db := (db s)\<lparr>chat_sessions := chat_sessions (db s) @ [?row]\<rparr>,
        sessionId := Some (s_id ?row), messages := []\<rparr>"
    by (intro loadOrCreateSession_creates [OF _ _ _ _ ins]) simp_all
  show "chat_sessions (db (loadOrCreateSession lenv s)) = chat_sessions (db s) @ [?row]"
    "sessionId (loadOrCreateSession lenv s) = Some (gen_random_uuid (session_insert lenv))"
    "chat_messages (db (loadOrCreateSession lenv s)) = chat_messages (db s)"
    unfolding run by simp_all
qed

text \<open>
  C1 as stated fails at a send with no session id set, on tables without a session: the
  send creates no session and stores no message.
\<close>

theorem send_without_session_counterexample:
  "sessionId ex_app_unsent = None \<and> trim (input ex_app_unsent) = js ''hi'' \<and>
   chat_sessions (db ex_app_unsent) = [] \<and>
   chat_sessions (db (handleSend ex_send_env ex_app_unsent)) = [] \<and>
   chat_messages (db (handleSend ex_send_env ex_app_unsent)) = []"
  by (simp add: handleSend_def ex_app_unsent_def ex_db_fresh_def trim_def js_def
      is_white_space_def)

theorem session_created_on_selection_never_on_send_witness:
  "sessionId ex_app_unsent = None \<and> handleSend ex_send_env ex_app_unsent = ex_app_unsent \<and>
   documentId ex_app_unsent = Some 10 \<and>
   getUser (user_fault ex_session_env) ex_app_unsent = Some 1 \<and>
   chat_sessions (db ex_app_unsent) = [] \<and>
   chat_sessions (db (loadOrCreateSession ex_session_env ex_app_unsent)) =
     [\<lparr>s_id = 21, s_user_id = 1, s_document_id = 10, s_created_at = 501, s_updated_at = 501\<rparr>] \<and>
   sessionId (loadOrCreateSession ex_session_env ex_app_unsent) = Some 21 \<and>
   chat_messages (db (handleSend ex_send_env
     (loadOrCreateSession ex_session_env ex_app_unsent))) =
     [\<lparr>m_id = 32, m_session_id = 21, m_role = User, m_content = js ''hi'', m_created_at = 320\<rparr>,
      \<lparr>m_id = 33, m_session_id = 21, m_role = Assistant, m_content = js ''because'',
        m_created_at = 330\<rparr>]"
proof -
  have a: "sessionId ex_app_unsent = None"
    by (simp add: ex_app_unsent_def)
  have b: "documentId ex_app_unsent = Some 10 \<and>
    getUser (user_fault ex_session_env) ex_app_unsent = Some 1 \<and>
    fault (sessions_select ex_session_env) = None \<and>
    (\<forall>x\<in>set (chat_sessions (db ex_app_unsent)). \<not> (s_user_id x = 1 \<and> s_document_id x = 10)) \<and>
    fault (session_insert ex_session_env) = None \<and>
    gen_random_uuid (session_insert ex_session_env) \<notin>
      set (map s_id (chat_sessions (db ex_app_unsent))) \<and>
    10 \<in> set (map d_id (documents (db ex_app_unsent)))"
    by (simp add: ex_app_unsent_def ex_db_fresh_def ex_session_env_def ex_ok_def getUser_def
        ex_document_def)
  have c: "chat_sessions (db ex_app_unsent) = [] \<and>
    gen_random_uuid (session_insert ex_session_env) = 21 \<and> now (session_insert ex_session_env) = 501"
    by (simp add: ex_app_unsent_def ex_db_fresh_def ex_session_env_def ex_ok_def)
  have d: "chat_messages (db (handleSend ex_send_env
     (loadOrCreateSession ex_session_env ex_app_unsent))) =
     [\<lparr>m_id = 32, m_session_id = 21, m_role = User, m_content = js ''hi'', m_created_at = 320\<rparr>,
      \<lparr>m_id = 33, m_session_id = 21, m_role = Assistant, m_content = js ''because'',
        m_created_at = 330\<rparr>]"
    by (simp add: handleSend_def loadOrCreateSession_def select_sessions_def
        insert_chat_session_def insert_chat_message_def pg_text_def owns_session_def getUser_def
        ex_session_env_def ex_defs trim_def is_white_space_def Let_def js_def)
  from session_created_on_selection_never_on_send
    [of ex_send_env ex_app_unsent 10 ex_session_env 1] a b c d
  show ?thesis by simp
qed

text \<open>
  The session id is not reset when \<open>loadOrCreateSession\<close> leaves early. After a selection
  during which the user lookup fails, the session id is still the one of the document
  selected before, and a send stores the question about the newly selected document in
  that other document's session.
\<close>

lemma send_after_failed_selection:
  "selectedDocId (selectDoc ex_session_env_offline 12 ex_app_two) = Some 12 \<and>
   documentContent (selectDoc ex_session_env_offline 12 ex_app_two) = js ''gamma'' \<and>
   sessionId (selectDoc ex_session_env_offline 12 ex_app_two) = Some 20 \<and>
   chat_sessions (db (handleSend ex_send_env (selectDoc ex_session_env_offline 12 ex_app_two))) =
     [ex_session] \<and>
   s_document_id ex_session = 10 \<and>
   chat_messages (db (handleSend ex_send_env (selectDoc ex_session_env_offline 12 ex_app_two))) =
     [ex_question, ex_reply,
      \<lparr>m_id = 32, m_session_id = 20, m_role = User, m_content = js ''why?'',
        m_created_at = 320\<rparr>,
      \<lparr>m_id = 33, m_session_id = 20, m_role = Assistant, m_content = js ''because'',
        m_created_at = 330\<rparr>] \<and>
   invocations (handleSend ex_send_env (selectDoc ex_session_env_offline 12 ex_app_two)) =
     [\<lparr>b_message = js ''why?'', b_documentContent = js ''gamma'', b_sessionId = 20\<rparr>]"
proof -
  have sel: "selectDoc ex_session_env_offline 12 ex_app_two =
      ex_app_two\<lparr>selectedDocId := Some 12, selectedDocContent := js ''gamma''\<rparr>"
    by (simp add: selectDoc_def loadOrCreateSession_def getUser_def selected_effect_def
        ex_session_env_offline_def ex_app_two_def ex_app_def ex_document_def ex_document2_def)
  show ?thesis
    unfolding sel
    by (simp add: handleSend_def trim_def is_white_space_def Let_def insert_chat_message_def pg_text_def
        owns_session_def ex_app_two_def ex_defs js_def)
qed

text \<open>
  C5. The user has one session for the document. The session query fails (its error is not
  read), the insert goes through: a second session for the same user and document is
  created and becomes the session shown, with an empty message list, where the claim has
  the existing session reused.
\<close>

theorem loadOrCreateSession_failed_query_adds_session:
  "chat_sessions (db ex_app) = [ex_session] \<and>
   s_user_id ex_session = 1 \<and> s_document_id ex_session = 10 \<and>
   auth_user ex_app = Some 1 \<and> documentId ex_app = Some 10 \<and>
   fault (sessions_select ex_session_env_flaky) = Some (Error (js ''Failed to fetch'')) \<and>
   chat_sessions (db (loadOrCreateSession ex_session_env_flaky ex_app)) =
     [ex_session,
      \<lparr>s_id = 21, s_user_id = 1, s_document_id = 10, s_created_at = 501, s_updated_at = 501\<rparr>] \<and>
   sessionId (loadOrCreateSession ex_session_env_flaky ex_app) = Some 21 \<and>
   messages (loadOrCreateSession ex_session_env_flaky ex_app) = []"
  by (simp add: loadOrCreateSession_def select_sessions_def insert_chat_session_def
      getUser_def ex_session_env_flaky_def ex_defs Let_def)

end
